theory Spec2Isabelle
  imports Main
begin

section \<open>Values shared with the Go runtime and its libraries\<close>

text \<open>
  Byte strings and Go strings are character lists. Go's \<^verbatim>\<open>int\<close> and \<^verbatim>\<open>int64\<close> are
  modelled as \<^typ>\<open>int\<close>: the program only compares them (status range, \<^verbatim>\<open>size > 0\<close>) and
  never computes with them, so no operation can wrap.
\<close>

type_synonym bytes = string

text \<open>
  A Go error value, identified by its message. \<^verbatim>\<open>fmt.Errorf\<close> builds a new error from the
  formatted text; library errors are whatever the library returned.
\<close>

datatype error = Error string

text \<open>A Go slice is either nil or holds elements; \<^verbatim>\<open>encoding/json\<close> tells the two apart.\<close>

datatype 'a slice = NilSlice | Slice "'a list"

text \<open>
  An \<^verbatim>\<open>io.Reader\<close>: the bytes it yields and how it ends, with \<^verbatim>\<open>io.EOF\<close> (\<open>None\<close>) or
  with a read error.
\<close>

record reader =
  data :: bytes
  fail :: "error option"

definition io_EOF :: error where
  "io_EOF = Error ''EOF''"

text \<open>\<^verbatim>\<open>io.ReadAll\<close>: everything read, and the read error if the reader ended with one.\<close>

definition io_ReadAll :: "reader \<Rightarrow> bytes \<times> error option" where
  "io_ReadAll r = (data r, fail r)"

text \<open>
  \<^verbatim>\<open>io.CopyN(dst, src, n)\<close> into an in-memory buffer: the first \<open>n\<close> bytes, or the error
  that ended the reader early (\<^verbatim>\<open>io.EOF\<close> at a clean end).
\<close>

definition io_CopyN :: "reader \<Rightarrow> int \<Rightarrow> error + bytes" where
  "io_CopyN src n =
     (if n \<le> int (length (data src)) then Inr (take (nat n) (data src))
      else Inl (case fail src of None \<Rightarrow> io_EOF | Some e \<Rightarrow> e))"

text \<open>Decimal text of an integer, as \<^verbatim>\<open>%d\<close> prints it.\<close>

fun itoa_nat :: "nat \<Rightarrow> string" where
  "itoa_nat n =
     (if n < 10 then [''0123456789'' ! n]
      else itoa_nat (n div 10) @ [''0123456789'' ! (n mod 10)])"

declare itoa_nat.simps [simp del]

definition itoa :: "int \<Rightarrow> string" where
  "itoa i = (if i < 0 then CHR ''-'' # itoa_nat (nat (- i)) else itoa_nat (nat i))"

text \<open>JSON values, the trees \<^verbatim>\<open>encoding/json\<close> writes for the request structures.\<close>

datatype json =
    JNull
  | JBool bool
  | JNumber int
  | JString string
  | JArray "json list"
  | JObject "(string \<times> json) list"

definition slice_json :: "('a \<Rightarrow> json) \<Rightarrow> 'a slice \<Rightarrow> json" where
  "slice_json f s = (case s of NilSlice \<Rightarrow> JNull | Slice xs \<Rightarrow> JArray (map f xs))"

section \<open>HTTP messages\<close>

text \<open>
  \<^verbatim>\<open>http.Header\<close> maps a name to its values and \<^verbatim>\<open>Set\<close> replaces them by one value. Go
  stores and looks up names in canonical capitalisation; header names do not depend on
  case, and the names the package sets stay distinct under it, so the model keeps the
  names as the source writes them.
\<close>

type_synonym http_Header = "string \<rightharpoonup> string list"

definition Header_Set :: "http_Header \<Rightarrow> string \<Rightarrow> string \<Rightarrow> http_Header" where
  "Header_Set h k v = h(k \<mapsto> [v])"

record http_Request =
  Method :: string
  URL :: string
  Header :: http_Header
  Body :: bytes

record http_Response =
  StatusCode :: int
  RespBody :: reader

text \<open>
  \<^verbatim>\<open>http.Client\<close>; interface-valued fields are optional handles. \<^verbatim>\<open>&http.Client{}\<close> is the
  zero value.
\<close>

record http_Client =
  Transport :: "nat option"
  CheckRedirect :: "nat option"
  Jar :: "nat option"
  Timeout :: int

definition http_Client_zero :: http_Client where
  "http_Client_zero = \<lparr>Transport = None, CheckRedirect = None, Jar = None, Timeout = 0\<rparr>"

section \<open>The data model of the package\<close>

record uploadthingConfig =
  Host :: string
  ApiKey :: string
  Version :: string

record UtApi =
  config :: uploadthingConfig
  httpClient :: http_Client
  fePackage :: string
  beAdapter :: string

text \<open>Request and response structures, one record per Go struct.\<close>

record DeleteFilesRequest =
  FileKeys :: "string slice"

record DeleteFilesResponse =
  Success :: bool
  DeletedCount :: int

record ListFilesRequest =
  Limit :: int
  Offset :: int

record ListFilesFile =
  Id :: string
  CustomId :: "string option"
  Key :: string
  Name :: string
  Status :: string
  Size :: int
  UploadedAt :: int

record ListFilesResponse =
  HasMore :: bool
  Files :: "ListFilesFile slice"

record RenameFileUpdate =
  FileKey :: string
  NewName :: string

record RenameFilesRequest =
  Updates :: "RenameFileUpdate slice"

record RenameFilesResponse =
  Success :: bool
  RenamedCount :: int

record UsageInfoResponse =
  TotalBytes :: int
  AppTotalBytes :: int
  FilesUploaded :: int
  LimitBytes :: int

record RequestFileAccessRequest =
  FileKey :: string
  ExpiresIn :: int

record RequestFileAccessResponse =
  UfsUrl :: string
  Url :: string

record GetAppInfoResponse =
  AppId :: string
  DefaultACL :: string
  AllowACLOverride :: bool

record UploadFileInfo =
  Name :: string
  Size :: int
  Type :: string
  CustomId :: "string option"

record UploadFilesRequest =
  Files :: "UploadFileInfo slice"
  ACL :: string
  Metadata :: "json option"
  ContentDisposition :: string

text \<open>
  \<^verbatim>\<open>Fields\<close> is a Go map; it is kept as the list of its entries in the order in which this
  run's \<^verbatim>\<open>range\<close> visits them (Go leaves that order open, so every order is a possible run).
\<close>

record PresignedPostURLs =
  Key :: string
  FileName :: string
  FileType :: string
  FileUrl :: string
  ContentDisposition :: string
  PollingJwt :: string
  PollingUrl :: string
  CustomId :: "string option"
  Url :: string
  Fields :: "(string \<times> string) list"

record UploadFilesResponse =
  Data :: "PresignedPostURLs slice"

subsection \<open>What \<^verbatim>\<open>json.Marshal\<close> writes for each request structure\<close>

text \<open>
  The field names are the struct tags. A nil slice is written as \<^verbatim>\<open>null\<close>; a field tagged
  \<^verbatim>\<open>omitempty\<close> is left out when it holds its zero value (0, the empty string, a nil pointer
  or a nil interface).
\<close>

definition DeleteFilesRequest_json :: "DeleteFilesRequest \<Rightarrow> json" where
  "DeleteFilesRequest_json r = JObject [(''fileKeys'', slice_json JString (FileKeys r))]"

definition ListFilesRequest_json :: "ListFilesRequest \<Rightarrow> json" where
  "ListFilesRequest_json r =
     JObject [(''limit'', JNumber (Limit r)), (''offset'', JNumber (Offset r))]"

definition RenameFileUpdate_json :: "RenameFileUpdate \<Rightarrow> json" where
  "RenameFileUpdate_json u =
     JObject [(''fileKey'', JString (RenameFileUpdate.FileKey u)),
              (''newName'', JString (NewName u))]"

definition RenameFilesRequest_json :: "RenameFilesRequest \<Rightarrow> json" where
  "RenameFilesRequest_json r =
     JObject [(''updates'', slice_json RenameFileUpdate_json (Updates r))]"

definition RequestFileAccessRequest_json :: "RequestFileAccessRequest \<Rightarrow> json" where
  "RequestFileAccessRequest_json r =
     JObject ([(''fileKey'', JString (RequestFileAccessRequest.FileKey r))] @
              (if ExpiresIn r = 0 then [] else [(''expiresIn'', JNumber (ExpiresIn r))]))"

definition UploadFileInfo_json :: "UploadFileInfo \<Rightarrow> json" where
  "UploadFileInfo_json f =
     JObject ([(''name'', JString (UploadFileInfo.Name f)),
               (''size'', JNumber (UploadFileInfo.Size f)),
               (''type'', JString (Type f))] @
              (case UploadFileInfo.CustomId f of
                 None \<Rightarrow> []
               | Some c \<Rightarrow> [(''customId'', JString c)]))"

definition UploadFilesRequest_json :: "UploadFilesRequest \<Rightarrow> json" where
  "UploadFilesRequest_json r =
     JObject ([(''files'', slice_json UploadFileInfo_json (UploadFilesRequest.Files r)),
               (''acl'', JString (ACL r))] @
              (case Metadata r of None \<Rightarrow> [] | Some m \<Rightarrow> [(''metadata'', m)]) @
              (if UploadFilesRequest.ContentDisposition r = [] then []
               else [(''contentDisposition'',
                      JString (UploadFilesRequest.ContentDisposition r))]))"

section \<open>The libraries and the outside world\<close>

text \<open>A part of a \<^verbatim>\<open>multipart/form-data\<close> body, as \<^verbatim>\<open>multipart.Writer\<close> receives it.\<close>

datatype part =
    FormField string string
  | FormFile string string bytes

text \<open>
  The library functions whose code is not part of the package are parameters: the text
  \<^verbatim>\<open>encoding/json\<close> writes for a JSON tree, its decoder at each response type, the URL check
  of \<^verbatim>\<open>http.NewRequest\<close> (\<open>None\<close> when the URL parses), and the bytes \<^verbatim>\<open>mime/multipart\<close>
  writes for a boundary and a list of parts.
\<close>

record lib =
  json_encode :: "json \<Rightarrow> bytes"
  url_Parse :: "string \<Rightarrow> error option"
  Decode_DeleteFilesResponse :: "reader \<Rightarrow> error + DeleteFilesResponse"
  Decode_ListFilesResponse :: "reader \<Rightarrow> error + ListFilesResponse"
  Decode_RenameFilesResponse :: "reader \<Rightarrow> error + RenameFilesResponse"
  Decode_UsageInfoResponse :: "reader \<Rightarrow> error + UsageInfoResponse"
  Decode_RequestFileAccessResponse :: "reader \<Rightarrow> error + RequestFileAccessResponse"
  Decode_GetAppInfoResponse :: "reader \<Rightarrow> error + GetAppInfoResponse"
  Decode_UploadFilesResponse :: "reader \<Rightarrow> error + UploadFilesResponse"
  multipart_encode :: "string \<Rightarrow> part list \<Rightarrow> bytes"

text \<open>A file of the file system: what \<^verbatim>\<open>Stat\<close> reports as its size and what reading it yields.\<close>

record fs_file =
  stat_size :: "error + int"
  contents :: reader

record os_File =
  fd :: nat
  node :: fs_file

text \<open>
  A redirect answer of the provider: its status (301, 302, 303, 307 or 308) and the
  location it names, resolved against the URL of the request.
\<close>

type_synonym redirect = "int \<times> string"

text \<open>
  The state a call runs in: the receiver object \<open>ut\<close>; the provider behind the network,
  as \<^verbatim>\<open>http.Client.Do\<close> sees it: \<open>net\<close> is what \<^verbatim>\<open>Do\<close> returns for a request (the last answer
  of the exchange; it may depend on the client used and on everything sent before) and
  \<open>redirects\<close> are the redirect answers the provider gives before that one; the log
  \<open>sent\<close> of requests handed to \<^verbatim>\<open>http.Client.Do\<close>; the log \<open>wire\<close> of the HTTP requests
  that went out to the network, by method and URL; the process environment, what reading
  and parsing a dotenv file gives, the file system with the set of open descriptors,
  standard output, and the boundary the next \<^verbatim>\<open>multipart.NewWriter\<close> draws. A method is
  called on a non-nil receiver with a non-nil configuration, as \<^verbatim>\<open>NewUtApi\<close> builds it.
  Closing response bodies is not tracked.
\<close>

record world =
  ut :: UtApi
  net :: "http_Client \<Rightarrow> http_Request list \<Rightarrow> http_Request \<Rightarrow> error + http_Response"
  redirects :: "http_Client \<Rightarrow> http_Request list \<Rightarrow> http_Request \<Rightarrow> redirect list"
  sent :: "http_Request list"
  wire :: "(string \<times> string) list"
  environ :: "string \<rightharpoonup> string"
  dotenv :: "string \<Rightarrow> error + (string \<rightharpoonup> string)"
  fs :: "string \<Rightarrow> error + fs_file"
  open_files :: "nat set"
  next_fd :: nat
  stdout :: "string list"
  boundary :: string

text \<open>
  \<^verbatim>\<open>json.Marshal\<close> reports an error only for unsupported types, cyclic values and failing
  custom marshalers; the request structures hold strings, integers, slices and pointers
  only, so on their trees it always succeeds. The callers still test its error.
\<close>

definition json_Marshal :: "lib \<Rightarrow> json \<Rightarrow> error + bytes" where
  "json_Marshal l v = Inr (json_encode l v)"

text \<open>
  \<^verbatim>\<open>http.NewRequest\<close> with a valid method: fails when the URL does not parse, otherwise a
  request with an empty header.
\<close>

definition http_NewRequest :: "lib \<Rightarrow> string \<Rightarrow> string \<Rightarrow> bytes \<Rightarrow> error + http_Request" where
  "http_NewRequest l method url body =
     (case url_Parse l url of
        Some err \<Rightarrow> Inl err
      | None \<Rightarrow> Inr \<lparr>Method = method, URL = url, Header = Map.empty, Body = body\<rparr>)"

text \<open>
  The request that follows a redirect answer, by method and URL, as \<^verbatim>\<open>net/http\<close> derives it:
  307 and 308 repeat the method (and the body) at the new location; 301, 302 and 303 turn
  every method but GET and HEAD into GET.
\<close>

fun redirect_hop :: "string \<times> string \<Rightarrow> redirect \<Rightarrow> string \<times> string" where
  "redirect_hop (method, url) (status, location) =
     (if status = 307 \<or> status = 308 then (method, location)
      else if method = ''GET'' \<or> method = ''HEAD'' then (method, location)
      else (''GET'', location))"

fun hops :: "string \<times> string \<Rightarrow> redirect list \<Rightarrow> (string \<times> string) list" where
  "hops r [] = []"
| "hops r (a # rest) = redirect_hop r a # hops (redirect_hop r a) rest"

text \<open>
  The redirects a client follows. With a nil \<^verbatim>\<open>CheckRedirect\<close>, as in \<^verbatim>\<open>&http.Client{}\<close>, the
  default policy refuses the request that would be the eleventh of an exchange, so nine
  redirects at most are followed after the first request; a client with a policy of its
  own follows what that policy lets through.
\<close>

definition followed :: "http_Client \<Rightarrow> redirect list \<Rightarrow> redirect list" where
  "followed c rs = (case CheckRedirect c of None \<Rightarrow> take 9 rs | Some _ \<Rightarrow> rs)"

text \<open>The requests one \<^verbatim>\<open>Do\<close> puts on the network: the request, then one for each redirect followed.\<close>

definition exchange :: "http_Client \<Rightarrow> http_Request \<Rightarrow> world \<Rightarrow> (string \<times> string) list" where
  "exchange c req w =
     (Method req, URL req) #
     hops (Method req, URL req) (followed c (redirects w c (sent w) req))"

text \<open>
  \<^verbatim>\<open>client.Do(req)\<close>: the request is logged as handed to the client, the requests of the
  exchange go out, and the client returns the provider's last answer.
\<close>

definition http_Client_Do ::
  "http_Client \<Rightarrow> http_Request \<Rightarrow> world \<Rightarrow> (error + http_Response) \<times> world" where
  "http_Client_Do c req w =
     (net w c (sent w) req,
      w\<lparr>sent := sent w @ [req], wire := wire w @ exchange c req w\<rparr>)"

definition os_Getenv :: "string \<Rightarrow> world \<Rightarrow> string" where
  "os_Getenv key w = (case environ w key of None \<Rightarrow> [] | Some v \<Rightarrow> v)"

text \<open>
  \<^verbatim>\<open>godotenv.Load\<close>: reads and parses the file, then sets every variable of the file that
  the process environment does not have yet.
\<close>

definition godotenv_Load :: "string \<Rightarrow> world \<Rightarrow> error option \<times> world" where
  "godotenv_Load filename w =
     (case dotenv w filename of
        Inl err \<Rightarrow> (Some err, w)
      | Inr envMap \<Rightarrow> (None, w\<lparr>environ := envMap ++ environ w\<rparr>))"

definition fmt_Printf :: "string \<Rightarrow> world \<Rightarrow> world" where
  "fmt_Printf s w = w\<lparr>stdout := stdout w @ [s]\<rparr>"

definition os_Open :: "string \<Rightarrow> world \<Rightarrow> (error + os_File) \<times> world" where
  "os_Open name w =
     (case fs w name of
        Inl err \<Rightarrow> (Inl err, w)
      | Inr f \<Rightarrow>
          (Inr \<lparr>fd = next_fd w, node = f\<rparr>,
           w\<lparr>open_files := insert (next_fd w) (open_files w), next_fd := Suc (next_fd w)\<rparr>))"

definition File_Close :: "os_File \<Rightarrow> world \<Rightarrow> world" where
  "File_Close file w = w\<lparr>open_files := open_files w - {fd file}\<rparr>"

definition File_Stat :: "os_File \<Rightarrow> error + int" where
  "File_Stat file = stat_size (node file)"

section \<open>Configuration and the constructor\<close>

definition setEnvironmentVariablesFromFile :: "world \<Rightarrow> error option \<times> world" where
  "setEnvironmentVariablesFromFile w = godotenv_Load ''.env'' w"

definition handleSetEnvironmentVariables :: "world \<Rightarrow> error option \<times> world" where
  "handleSetEnvironmentVariables w =
     (case setEnvironmentVariablesFromFile w of
        (Some err, w1) \<Rightarrow>
          (Some err,
           fmt_Printf (''Failed to load environment variables from .env file'' @ [CHR 0x0A]) w1)
      | (None, w1) \<Rightarrow> (None, w1))"

fun validateEnvironmentVariables :: "string list \<Rightarrow> world \<Rightarrow> error option" where
  "validateEnvironmentVariables [] w = None"
| "validateEnvironmentVariables (key # keys) w =
     (if os_Getenv key w = [] then Some (Error (key @ '' is not set''))
      else validateEnvironmentVariables keys w)"

text \<open>
  \<^verbatim>\<open>getUploadthingConfig\<close> returns either \<^verbatim>\<open>nil, err\<close> or a pointer to a fresh
  configuration with a nil error, so its result is a sum.
\<close>

definition getUploadthingConfig :: "world \<Rightarrow> (error + uploadthingConfig) \<times> world" where
  "getUploadthingConfig w =
     (case handleSetEnvironmentVariables w of
        (Some err, w1) \<Rightarrow> (Inl err, w1)
      | (None, w1) \<Rightarrow>
          (case validateEnvironmentVariables [''UPLOADTHING_SECRET''] w1 of
             Some err \<Rightarrow> (Inl err, w1)
           | None \<Rightarrow>
               (Inr \<lparr>Host = ''https://api.uploadthing.com'',
                      ApiKey = os_Getenv ''UPLOADTHING_SECRET'' w1,
                      Version = ''7.6.0''\<rparr>, w1)))"

text \<open>The constructor returns Go's pair: the client pointer (or nil) and the error (or nil).\<close>

definition NewUtApi :: "world \<Rightarrow> (UtApi option \<times> error option) \<times> world" where
  "NewUtApi w =
     (case getUploadthingConfig w of
        (Inl err, w1) \<Rightarrow> ((None, Some err), w1)
      | (Inr cfg, w1) \<Rightarrow>
          ((Some \<lparr>config = cfg,
                   httpClient = http_Client_zero,
                   fePackage = [],
                   beAdapter = ''github.com/IXackerr/utapi-go''\<rparr>, None), w1))"

section \<open>Headers and the shared POST\<close>

definition setHeaders :: "UtApi \<Rightarrow> http_Request \<Rightarrow> http_Request" where
  "setHeaders u req =
     (let req = req\<lparr>Header := Header_Set (Header req) ''Content-Type'' ''application/json''\<rparr>;
          req = req\<lparr>Header := Header_Set (Header req) ''x-uploadthing-api-key'' (ApiKey (config u))\<rparr>;
          req = req\<lparr>Header := Header_Set (Header req) ''x-uploadthing-version'' (Version (config u))\<rparr>;
          req = (if fePackage u \<noteq> []
                 then req\<lparr>Header := Header_Set (Header req) ''x-uploadthing-fe-package'' (fePackage u)\<rparr>
                 else req);
          req = (if beAdapter u \<noteq> []
                 then req\<lparr>Header := Header_Set (Header req) ''x-uploadthing-be-adapter'' (beAdapter u)\<rparr>
                 else req)
      in req)"

definition post :: "lib \<Rightarrow> string \<Rightarrow> bytes \<Rightarrow> world \<Rightarrow> (error + http_Response) \<times> world" where
  "post l path body w =
     (let url = Host (config (ut w)) @ path in
      case http_NewRequest l ''POST'' url body of
        Inl err \<Rightarrow> (Inl err, w)
      | Inr req \<Rightarrow>
          (case http_Client_Do (httpClient (ut w)) (setHeaders (ut w) req) w of
             (Inl err, w1) \<Rightarrow> (Inl err, w1)
           | (Inr resp, w1) \<Rightarrow>
               if StatusCode resp < 200 \<or> StatusCode resp \<ge> 300
               then (let (respBody, _) = io_ReadAll (RespBody resp)
                     in (Inl (Error (''UploadThing: error '' @ itoa (StatusCode resp) @
                                     '': '' @ respBody)), w1))
               else (Inr resp, w1)))"

section \<open>The API methods\<close>

text \<open>
  \<^verbatim>\<open>post\<close> returns either \<^verbatim>\<open>nil, err\<close> or the response with a nil error, so its result is a
  sum. Every exported method returns Go's pair, the result (a pointer or a string) and
  the error, as its return statements write it.
\<close>

definition DeleteFiles ::
  "lib \<Rightarrow> string slice \<Rightarrow> world \<Rightarrow> (DeleteFilesResponse option \<times> error option) \<times> world" where
  "DeleteFiles l fileKeys w =
     (let payload = \<lparr>FileKeys = fileKeys\<rparr> in
      case json_Marshal l (DeleteFilesRequest_json payload) of
        Inl err \<Rightarrow> ((None, Some err), w)
      | Inr dat \<Rightarrow>
          (case post l ''/v6/deleteFiles'' dat w of
             (Inl err, w1) \<Rightarrow> ((None, Some err), w1)
           | (Inr resp, w1) \<Rightarrow>
               (case Decode_DeleteFilesResponse l (RespBody resp) of
                  Inl err \<Rightarrow> ((None, Some err), w1)
                | Inr result \<Rightarrow> ((Some result, None), w1))))"

definition ListFiles ::
  "lib \<Rightarrow> int \<Rightarrow> int \<Rightarrow> world \<Rightarrow> (ListFilesResponse option \<times> error option) \<times> world" where
  "ListFiles l limit offset w =
     (let payload = \<lparr>Limit = limit, Offset = offset\<rparr> in
      case json_Marshal l (ListFilesRequest_json payload) of
        Inl err \<Rightarrow> ((None, Some err), w)
      | Inr dat \<Rightarrow>
          (case post l ''/v6/listFiles'' dat w of
             (Inl err, w1) \<Rightarrow> ((None, Some err), w1)
           | (Inr resp, w1) \<Rightarrow>
               (case Decode_ListFilesResponse l (RespBody resp) of
                  Inl err \<Rightarrow> ((None, Some err), w1)
                | Inr result \<Rightarrow> ((Some result, None), w1))))"

definition RenameFiles ::
  "lib \<Rightarrow> RenameFileUpdate slice \<Rightarrow> world \<Rightarrow>
   (RenameFilesResponse option \<times> error option) \<times> world" where
  "RenameFiles l updates w =
     (let payload = \<lparr>Updates = updates\<rparr> in
      case json_Marshal l (RenameFilesRequest_json payload) of
        Inl err \<Rightarrow> ((None, Some err), w)
      | Inr dat \<Rightarrow>
          (case post l ''/v6/renameFiles'' dat w of
             (Inl err, w1) \<Rightarrow> ((None, Some err), w1)
           | (Inr resp, w1) \<Rightarrow>
               (case Decode_RenameFilesResponse l (RespBody resp) of
                  Inl err \<Rightarrow> ((None, Some err), w1)
                | Inr result \<Rightarrow> ((Some result, None), w1))))"

definition GetUsageInfo ::
  "lib \<Rightarrow> world \<Rightarrow> (UsageInfoResponse option \<times> error option) \<times> world" where
  "GetUsageInfo l w =
     (case post l ''/v6/getUsageInfo'' ''{}'' w of
        (Inl err, w1) \<Rightarrow> ((None, Some err), w1)
      | (Inr resp, w1) \<Rightarrow>
          (case Decode_UsageInfoResponse l (RespBody resp) of
             Inl err \<Rightarrow> ((None, Some err), w1)
           | Inr result \<Rightarrow> ((Some result, None), w1)))"

definition GetPresignedUrl ::
  "lib \<Rightarrow> string \<Rightarrow> int \<Rightarrow> world \<Rightarrow> (string \<times> error option) \<times> world" where
  "GetPresignedUrl l fileKey expiresIn w =
     (let payload = \<lparr>FileKey = fileKey, ExpiresIn = expiresIn\<rparr> in
      case json_Marshal l (RequestFileAccessRequest_json payload) of
        Inl err \<Rightarrow> (([], Some err), w)
      | Inr dat \<Rightarrow>
          (case post l ''/v6/requestFileAccess'' dat w of
             (Inl err, w1) \<Rightarrow> (([], Some err), w1)
           | (Inr resp, w1) \<Rightarrow>
               (case Decode_RequestFileAccessResponse l (RespBody resp) of
                  Inl err \<Rightarrow> (([], Some err), w1)
                | Inr result \<Rightarrow> ((UfsUrl result, None), w1))))"

definition GetAppInfo ::
  "lib \<Rightarrow> world \<Rightarrow> (GetAppInfoResponse option \<times> error option) \<times> world" where
  "GetAppInfo l w =
     (case post l ''/v7/getAppInfo'' ''{}'' w of
        (Inl err, w1) \<Rightarrow> ((None, Some err), w1)
      | (Inr resp, w1) \<Rightarrow>
          (case Decode_GetAppInfoResponse l (RespBody resp) of
             Inl err \<Rightarrow> ((None, Some err), w1)
           | Inr result \<Rightarrow> ((Some result, None), w1)))"

definition GetPresignedUploadUrl ::
  "lib \<Rightarrow> UploadFileInfo slice \<Rightarrow> string \<Rightarrow> world \<Rightarrow>
   (UploadFilesResponse option \<times> error option) \<times> world" where
  "GetPresignedUploadUrl l files acl w =
     (let payload = \<lparr>Files = files, ACL = acl, Metadata = None, ContentDisposition = []\<rparr> in
      case json_Marshal l (UploadFilesRequest_json payload) of
        Inl err \<Rightarrow> ((None, Some err), w)
      | Inr dat \<Rightarrow>
          (case post l ''/v6/uploadFiles'' dat w of
             (Inl err, w1) \<Rightarrow> ((None, Some err), w1)
           | (Inr resp, w1) \<Rightarrow>
               (case Decode_UploadFilesResponse l (RespBody resp) of
                  Inl err \<Rightarrow> ((None, Some err), w1)
                | Inr result \<Rightarrow> ((Some result, None), w1))))"

section \<open>Uploading to a presigned URL\<close>

text \<open>
  \<^verbatim>\<open>CreateFormFile\<close> writes the part header into the in-memory buffer, whose \<^verbatim>\<open>Write\<close> never
  reports an error, and hands back the writer of the part's content: here, the part as a
  function of the bytes written to it. \<^verbatim>\<open>WriteField\<close> likewise always succeeds on that buffer.
\<close>

definition multipart_CreateFormFile :: "string \<Rightarrow> string \<Rightarrow> error + (bytes \<Rightarrow> part)" where
  "multipart_CreateFormFile fieldname filename = Inr (FormFile fieldname filename)"

definition createMultipartForm ::
  "lib \<Rightarrow> reader option \<Rightarrow> int \<Rightarrow> string \<Rightarrow> (string \<times> string) list \<Rightarrow> world \<Rightarrow>
   error + (bytes \<times> string)" where
  "createMultipartForm l content size' fileName fields' w =
     (let parts = map (\<lambda>(k, v). FormField k v) fields' in
      case multipart_CreateFormFile ''file'' fileName of
        Inl err \<Rightarrow> Inl err
      | Inr fw \<Rightarrow>
          (case (case content of
                   Some src \<Rightarrow> if size' > 0 then io_CopyN src size' else Inr []
                 | None \<Rightarrow> Inr []) of
             Inl err \<Rightarrow> Inl err
           | Inr written \<Rightarrow>
               Inr (multipart_encode l (boundary w) (parts @ [fw written]),
                    ''multipart/form-data; boundary='' @ boundary w)))"

text \<open>
  \<^verbatim>\<open>defer file.Close()\<close> runs when the function returns, on every path after the file was
  opened: the close is applied to the state in which the rest of the body ends.
\<close>

definition UploadFileToPresignedUrl ::
  "lib \<Rightarrow> string \<Rightarrow> PresignedPostURLs \<Rightarrow> world \<Rightarrow> error option \<times> world" where
  "UploadFileToPresignedUrl l filePath presigned w =
     (case os_Open filePath w of
        (Inl err, w1) \<Rightarrow> (Some err, w1)
      | (Inr file, w1) \<Rightarrow>
          (let (r, w2) =
             (case File_Stat file of
                Inl err \<Rightarrow> (Some err, w1)
              | Inr fileSize \<Rightarrow>
                  (case createMultipartForm l (Some (contents (node file))) fileSize
                          (FileName presigned) (Fields presigned) w1 of
                     Inl err \<Rightarrow> (Some err, w1)
                   | Inr (body, contentType) \<Rightarrow>
                       (case http_NewRequest l ''POST'' (PresignedPostURLs.Url presigned) body of
                          Inl err \<Rightarrow> (Some err, w1)
                        | Inr req \<Rightarrow>
                            (case http_Client_Do http_Client_zero
                                    (req\<lparr>Header := Header_Set (Header req) ''Content-Type'' contentType\<rparr>)
                                    w1 of
                               (Inl err, w2) \<Rightarrow> (Some err, w2)
                             | (Inr resp, w2) \<Rightarrow>
                                 if StatusCode resp < 200 \<or> StatusCode resp \<ge> 300
                                 then (let (respBody, _) = io_ReadAll (RespBody resp)
                                       in (Some (Error (''File upload error: '' @
                                                        itoa (StatusCode resp) @ '': '' @ respBody)),
                                           w2))
                                 else (None, w2)))))
           in (r, File_Close file w2)))"

definition UploadContentToPresignedUrl ::
  "lib \<Rightarrow> reader option \<Rightarrow> int \<Rightarrow> PresignedPostURLs \<Rightarrow> world \<Rightarrow> error option \<times> world" where
  "UploadContentToPresignedUrl l content size' presigned w =
     (case createMultipartForm l content size' (FileName presigned) (Fields presigned) w of
        Inl err \<Rightarrow> (Some err, w)
      | Inr (body, contentType) \<Rightarrow>
          (case http_NewRequest l ''POST'' (PresignedPostURLs.Url presigned) body of
             Inl err \<Rightarrow> (Some err, w)
           | Inr req \<Rightarrow>
               (case http_Client_Do http_Client_zero
                       (req\<lparr>Header := Header_Set (Header req) ''Content-Type'' contentType\<rparr>) w of
                  (Inl err, w1) \<Rightarrow> (Some err, w1)
                | (Inr resp, w1) \<Rightarrow>
                    if StatusCode resp < 200 \<or> StatusCode resp \<ge> 300
                    then (let (respBody, _) = io_ReadAll (RespBody resp)
                          in (Some (Error (''File upload error: '' @
                                           itoa (StatusCode resp) @ '': '' @ respBody)), w1))
                    else (None, w1))))"

section \<open>Calls as data\<close>

text \<open>
  To speak about every API method at once, a call is a value: the method and its
  arguments. \<open>invoke\<close> runs the method a call names and wraps its first result.
\<close>

datatype api_call =
    CallDeleteFiles "string slice"
  | CallListFiles int int
  | CallRenameFiles "RenameFileUpdate slice"
  | CallGetUsageInfo
  | CallGetPresignedUrl string int
  | CallGetAppInfo
  | CallGetPresignedUploadUrl "UploadFileInfo slice" string

datatype api_value =
    DeleteFilesValue "DeleteFilesResponse option"
  | ListFilesValue "ListFilesResponse option"
  | RenameFilesValue "RenameFilesResponse option"
  | UsageInfoValue "UsageInfoResponse option"
  | PresignedUrlValue string
  | AppInfoValue "GetAppInfoResponse option"
  | UploadFilesValue "UploadFilesResponse option"

fun invoke :: "lib \<Rightarrow> api_call \<Rightarrow> world \<Rightarrow> (api_value \<times> error option) \<times> world" where
  "invoke l (CallDeleteFiles fileKeys) w =
     (case DeleteFiles l fileKeys w of ((r, e), w1) \<Rightarrow> ((DeleteFilesValue r, e), w1))"
| "invoke l (CallListFiles limit offset) w =
     (case ListFiles l limit offset w of ((r, e), w1) \<Rightarrow> ((ListFilesValue r, e), w1))"
| "invoke l (CallRenameFiles updates) w =
     (case RenameFiles l updates w of ((r, e), w1) \<Rightarrow> ((RenameFilesValue r, e), w1))"
| "invoke l CallGetUsageInfo w =
     (case GetUsageInfo l w of ((r, e), w1) \<Rightarrow> ((UsageInfoValue r, e), w1))"
| "invoke l (CallGetPresignedUrl fileKey expiresIn) w =
     (case GetPresignedUrl l fileKey expiresIn w of ((r, e), w1) \<Rightarrow> ((PresignedUrlValue r, e), w1))"
| "invoke l CallGetAppInfo w =
     (case GetAppInfo l w of ((r, e), w1) \<Rightarrow> ((AppInfoValue r, e), w1))"
| "invoke l (CallGetPresignedUploadUrl files acl) w =
     (case GetPresignedUploadUrl l files acl w of ((r, e), w1) \<Rightarrow> ((UploadFilesValue r, e), w1))"

text \<open>A sequence of calls on the same client, and the states in which its calls start.\<close>

fun run_calls :: "lib \<Rightarrow> api_call list \<Rightarrow> world \<Rightarrow> world" where
  "run_calls l [] w = w"
| "run_calls l (c # cs) w = run_calls l cs (snd (invoke l c w))"

fun worlds_before :: "lib \<Rightarrow> api_call list \<Rightarrow> world \<Rightarrow> world list" where
  "worlds_before l [] w = []"
| "worlds_before l (c # cs) w = w # worlds_before l cs (snd (invoke l c w))"

section \<open>The wire contract, as the specification words it\<close>

text \<open>The fixed endpoint path of each method.\<close>

fun endpoint :: "api_call \<Rightarrow> string" where
  "endpoint (CallDeleteFiles _) = ''/v6/deleteFiles''"
| "endpoint (CallListFiles _ _) = ''/v6/listFiles''"
| "endpoint (CallRenameFiles _) = ''/v6/renameFiles''"
| "endpoint CallGetUsageInfo = ''/v6/getUsageInfo''"
| "endpoint (CallGetPresignedUrl _ _) = ''/v6/requestFileAccess''"
| "endpoint CallGetAppInfo = ''/v7/getAppInfo''"
| "endpoint (CallGetPresignedUploadUrl _ _) = ''/v6/uploadFiles''"

text \<open>
  The JSON body of each method: the object with the keys of the provider's schema. The two
  methods without arguments send the literal text of the empty object.
\<close>

fun payload :: "lib \<Rightarrow> api_call \<Rightarrow> bytes" where
  "payload l (CallDeleteFiles fileKeys) =
     json_encode l (JObject [(''fileKeys'', slice_json JString fileKeys)])"
| "payload l (CallListFiles limit offset) =
     json_encode l (JObject [(''limit'', JNumber limit), (''offset'', JNumber offset)])"
| "payload l (CallRenameFiles updates) =
     json_encode l (JObject [(''updates'',
        slice_json (\<lambda>u. JObject [(''fileKey'', JString (RenameFileUpdate.FileKey u)),
                                  (''newName'', JString (NewName u))]) updates)])"
| "payload l CallGetUsageInfo = ''{}''"
| "payload l (CallGetPresignedUrl fileKey expiresIn) =
     json_encode l (JObject ((''fileKey'', JString fileKey) #
        (if expiresIn = 0 then [] else [(''expiresIn'', JNumber expiresIn)])))"
| "payload l CallGetAppInfo = ''{}''"
| "payload l (CallGetPresignedUploadUrl files acl) =
     json_encode l (JObject [(''files'',
        slice_json (\<lambda>f. JObject ((''name'', JString (UploadFileInfo.Name f)) #
                                  (''size'', JNumber (UploadFileInfo.Size f)) #
                                  (''type'', JString (Type f)) #
                                  (case UploadFileInfo.CustomId f of
                                     None \<Rightarrow> []
                                   | Some c \<Rightarrow> [(''customId'', JString c)]))) files),
        (''acl'', JString acl)])"

text \<open>The result structure matching each method, decoded from a response body.\<close>

fun decoded :: "lib \<Rightarrow> api_call \<Rightarrow> reader \<Rightarrow> error + api_value" where
  "decoded l (CallDeleteFiles _) b =
     (case Decode_DeleteFilesResponse l b of
        Inl e \<Rightarrow> Inl e | Inr r \<Rightarrow> Inr (DeleteFilesValue (Some r)))"
| "decoded l (CallListFiles _ _) b =
     (case Decode_ListFilesResponse l b of
        Inl e \<Rightarrow> Inl e | Inr r \<Rightarrow> Inr (ListFilesValue (Some r)))"
| "decoded l (CallRenameFiles _) b =
     (case Decode_RenameFilesResponse l b of
        Inl e \<Rightarrow> Inl e | Inr r \<Rightarrow> Inr (RenameFilesValue (Some r)))"
| "decoded l CallGetUsageInfo b =
     (case Decode_UsageInfoResponse l b of
        Inl e \<Rightarrow> Inl e | Inr r \<Rightarrow> Inr (UsageInfoValue (Some r)))"
| "decoded l (CallGetPresignedUrl _ _) b =
     (case Decode_RequestFileAccessResponse l b of
        Inl e \<Rightarrow> Inl e | Inr r \<Rightarrow> Inr (PresignedUrlValue (UfsUrl r)))"
| "decoded l CallGetAppInfo b =
     (case Decode_GetAppInfoResponse l b of
        Inl e \<Rightarrow> Inl e | Inr r \<Rightarrow> Inr (AppInfoValue (Some r)))"
| "decoded l (CallGetPresignedUploadUrl _ _) b =
     (case Decode_UploadFilesResponse l b of
        Inl e \<Rightarrow> Inl e | Inr r \<Rightarrow> Inr (UploadFilesValue (Some r)))"

text \<open>What a method hands back beside an error: the nil pointer, or the empty string.\<close>

fun failure_value :: "api_call \<Rightarrow> api_value" where
  "failure_value (CallDeleteFiles _) = DeleteFilesValue None"
| "failure_value (CallListFiles _ _) = ListFilesValue None"
| "failure_value (CallRenameFiles _) = RenameFilesValue None"
| "failure_value CallGetUsageInfo = UsageInfoValue None"
| "failure_value (CallGetPresignedUrl _ _) = PresignedUrlValue []"
| "failure_value CallGetAppInfo = AppInfoValue None"
| "failure_value (CallGetPresignedUploadUrl _ _) = UploadFilesValue None"

text \<open>
  The request a call puts on the wire, when its URL parses: a POST to the endpoint
  appended to the configured host, with the client's headers and the call's body.
\<close>

definition api_request :: "lib \<Rightarrow> api_call \<Rightarrow> world \<Rightarrow> error + http_Request" where
  "api_request l c w =
     (case http_NewRequest l ''POST'' (Host (config (ut w)) @ endpoint c) (payload l c) of
        Inl e \<Rightarrow> Inl e
      | Inr req \<Rightarrow> Inr (setHeaders (ut w) req))"

text \<open>
  The underlying HTTP call of a method: building that request and handing it to the
  client. It fails when either step fails, and otherwise gives the provider's response.
\<close>

definition http_call :: "lib \<Rightarrow> api_call \<Rightarrow> world \<Rightarrow> error + http_Response" where
  "http_call l c w =
     (case api_request l c w of
        Inl e \<Rightarrow> Inl e
      | Inr req \<Rightarrow> net w (httpClient (ut w)) (sent w) req)"

definition status_ok :: "http_Response \<Rightarrow> bool" where
  "status_ok resp = (200 \<le> StatusCode resp \<and> StatusCode resp \<le> 299)"

text \<open>The error a method reports for a status outside 200-299: the status and the body.\<close>

definition status_error :: "http_Response \<Rightarrow> error" where
  "status_error resp =
     Error (''UploadThing: error '' @ itoa (StatusCode resp) @ '': '' @ data (RespBody resp))"

text \<open>
  What a method returns as a function of what its HTTP call gave: the error of the call,
  the status error, the decode error, or the decoded value with a nil error.
\<close>

definition outcome ::
  "lib \<Rightarrow> api_call \<Rightarrow> error + http_Response \<Rightarrow> api_value \<times> error option" where
  "outcome l c r =
     (case r of
        Inl e \<Rightarrow> (failure_value c, Some e)
      | Inr resp \<Rightarrow>
          if status_ok resp
          then (case decoded l c (RespBody resp) of
                  Inl e \<Rightarrow> (failure_value c, Some e)
                | Inr v \<Rightarrow> (v, None))
          else (failure_value c, Some (status_error resp)))"

text \<open>The requests a call hands to the client: its one request, or none if the URL does not parse.\<close>

definition issued :: "lib \<Rightarrow> api_call \<Rightarrow> world \<Rightarrow> http_Request list" where
  "issued l c w = (case api_request l c w of Inl e \<Rightarrow> [] | Inr req \<Rightarrow> [req])"

text \<open>What a call puts on the network: the exchange of each request it hands to the client.\<close>

definition on_wire :: "lib \<Rightarrow> api_call \<Rightarrow> world \<Rightarrow> (string \<times> string) list" where
  "on_wire l c w = concat (map (\<lambda>req. exchange (httpClient (ut w)) req w) (issued l c w))"

text \<open>
  The parts of an upload body: the provider's form fields, then the part named \<open>file\<close>
  with the file name and the content.
\<close>

definition form_parts :: "PresignedPostURLs \<Rightarrow> bytes \<Rightarrow> part list" where
  "form_parts p content =
     map (\<lambda>(k, v). FormField k v) (Fields p) @ [FormFile ''file'' (FileName p) content]"

section \<open>A concrete environment\<close>

text \<open>
  A small library and world on which the functions can be run: a JSON printer (without
  string escaping), decoders that know the bodies the example provider sends, a URL check
  that rejects the DEL control character, and a provider with one answer per endpoint.
\<close>

fun join :: "string \<Rightarrow> string list \<Rightarrow> string" where
  "join sep [] = []"
| "join sep [x] = x"
| "join sep (x # y # ys) = x @ sep @ join sep (y # ys)"

fun example_encode :: "json \<Rightarrow> bytes" where
  "example_encode JNull = ''null''"
| "example_encode (JBool b) = (if b then ''true'' else ''false'')"
| "example_encode (JNumber n) = itoa n"
| "example_encode (JString s) = [CHR 0x22] @ s @ [CHR 0x22]"
| "example_encode (JArray xs) = ''['' @ join '','' (map example_encode xs) @ '']''"
| "example_encode (JObject kvs) =
     ''{'' @ join '','' (map (\<lambda>(k, v). [CHR 0x22] @ k @ [CHR 0x22] @ '':'' @ example_encode v) kvs)
         @ ''}''"

fun example_part :: "string \<Rightarrow> part \<Rightarrow> bytes" where
  "example_part b (FormField k v) = ''--'' @ b @ '' field '' @ k @ ''='' @ v @ '';''"
| "example_part b (FormFile k name content) =
     ''--'' @ b @ '' file '' @ k @ '' '' @ name @ ''='' @ content @ '';''"

definition example_multipart :: "string \<Rightarrow> part list \<Rightarrow> bytes" where
  "example_multipart b ps = concat (map (example_part b) ps) @ ''--'' @ b @ ''--''"

definition deleted_body :: bytes where
  "deleted_body = example_encode (JObject [(''success'', JBool True), (''deletedCount'', JNumber 1)])"

definition access_body :: bytes where
  "access_body =
     example_encode (JObject [(''ufsUrl'', JString ''https://ufs.example/f/k1''),
                              (''url'', JString ''https://old.example/f/k1'')])"

definition bad_json :: error where
  "bad_json = Error ''invalid character looking for beginning of value''"

definition example_lib :: lib where
  "example_lib =
     \<lparr>json_encode = example_encode,
      url_Parse = (\<lambda>u. if CHR 0x7F \<in> set u
                         then Some (Error ''net/url: invalid control character in URL'')
                         else None),
      Decode_DeleteFilesResponse =
        (\<lambda>r. if data r = deleted_body then Inr \<lparr>DeleteFilesResponse.Success = True, DeletedCount = 1\<rparr>
              else Inl bad_json),
      Decode_ListFilesResponse =
        (\<lambda>r. if data r = ''{}'' then Inr \<lparr>HasMore = False, Files = NilSlice\<rparr>
              else Inl bad_json),
      Decode_RenameFilesResponse =
        (\<lambda>r. if data r = ''{}'' then Inr \<lparr>Success = False, RenamedCount = 0\<rparr>
              else Inl bad_json),
      Decode_UsageInfoResponse =
        (\<lambda>r. if data r = ''{}''
              then Inr \<lparr>TotalBytes = 0, AppTotalBytes = 0, FilesUploaded = 0, LimitBytes = 0\<rparr>
              else Inl bad_json),
      Decode_RequestFileAccessResponse =
        (\<lambda>r. if data r = access_body
              then Inr \<lparr>UfsUrl = ''https://ufs.example/f/k1'', Url = ''https://old.example/f/k1''\<rparr>
              else Inl bad_json),
      Decode_GetAppInfoResponse =
        (\<lambda>r. if data r = ''{}''
              then Inr \<lparr>AppId = [], DefaultACL = [], AllowACLOverride = False\<rparr>
              else Inl bad_json),
      Decode_UploadFilesResponse =
        (\<lambda>r. if data r = ''{}'' then Inr \<lparr>Data = NilSlice\<rparr> else Inl bad_json),
      multipart_encode = example_multipart\<rparr>"

definition example_client :: UtApi where
  "example_client =
     \<lparr>config = \<lparr>Host = ''https://api.uploadthing.com'',
                 ApiKey = ''sk_live_example'',
                 Version = ''7.6.0''\<rparr>,
      httpClient = http_Client_zero,
      fePackage = [],
      beAdapter = ''github.com/IXackerr/utapi-go''\<rparr>"

definition example_net ::
  "http_Client \<Rightarrow> http_Request list \<Rightarrow> http_Request \<Rightarrow> error + http_Response" where
  "example_net c hist req =
     (if URL req = ''https://api.uploadthing.com/v6/deleteFiles''
      then Inr \<lparr>StatusCode = 200, RespBody = \<lparr>data = deleted_body, fail = None\<rparr>\<rparr>
      else if URL req = ''https://api.uploadthing.com/v6/requestFileAccess''
      then Inr \<lparr>StatusCode = 200, RespBody = \<lparr>data = access_body, fail = None\<rparr>\<rparr>
      else if URL req = ''https://api.uploadthing.com/v6/listFiles''
      then Inr \<lparr>StatusCode = 500, RespBody = \<lparr>data = ''overloaded'', fail = None\<rparr>\<rparr>
      else if URL req = ''https://api.uploadthing.com/v6/getUsageInfo''
      then Inl (Error ''dial tcp: connection refused'')
      else if URL req = ''https://api.uploadthing.com/v7/getAppInfo''
      then Inr \<lparr>StatusCode = 200, RespBody = \<lparr>data = ''<html>'', fail = None\<rparr>\<rparr>
      else if URL req = ''https://bucket.example/upload''
      then Inr \<lparr>StatusCode = 204, RespBody = \<lparr>data = [], fail = None\<rparr>\<rparr>
      else Inr \<lparr>StatusCode = 404, RespBody = \<lparr>data = ''not found'', fail = None\<rparr>\<rparr>)"

definition example_world :: world where
  "example_world =
     \<lparr>ut = example_client,
      net = example_net,
      redirects = (\<lambda>c hist req. []),
      sent = [],
      wire = [],
      environ = Map.empty,
      dotenv = (\<lambda>p. if p = ''.env''
                      then Inr [''UPLOADTHING_SECRET'' \<mapsto> ''sk_live_example'']
                      else Inl (Error ''no such file or directory'')),
      fs = (\<lambda>p. if p = ''/tmp/test.txt''
                  then Inr \<lparr>stat_size = Inr 5, contents = \<lparr>data = ''hello'', fail = None\<rparr>\<rparr>
                  else Inl (Error ''no such file or directory'')),
      open_files = {0, 1, 2},
      next_fd = 3,
      stdout = [],
      boundary = ''b0''\<rparr>"

definition example_presigned :: PresignedPostURLs where
  "example_presigned =
     \<lparr>Key = ''k1'', FileName = ''test.txt'', FileType = ''text/plain'',
      FileUrl = ''https://ufs.example/f/k1'', ContentDisposition = ''inline'',
      PollingJwt = ''jwt'', PollingUrl = ''https://api.uploadthing.com/poll'',
      CustomId = None, Url = ''https://bucket.example/upload'',
      Fields = [(''key'', ''k1''), (''policy'', ''p'')]\<rparr>"

text \<open>Further inputs: a sequence of calls, readers, worlds without a usable dotenv file.\<close>

definition example_calls :: "api_call list" where
  "example_calls = [CallDeleteFiles (Slice [''k1'']), CallListFiles 100 0, CallGetAppInfo]"

definition later_world :: world where
  "later_world = run_calls example_lib example_calls example_world"

definition no_dotenv_world :: world where
  "no_dotenv_world =
     example_world\<lparr>dotenv := \<lambda>p. Inl (Error ''open .env: no such file or directory''),
                   environ := [''UPLOADTHING_SECRET'' \<mapsto> ''sk_live_from_process'']\<rparr>"

definition empty_dotenv_world :: world where
  "empty_dotenv_world = example_world\<lparr>dotenv := \<lambda>p. Inr Map.empty\<rparr>"

definition bad_host_world :: world where
  "bad_host_world =
     example_world\<lparr>ut := example_client\<lparr>config := (config example_client)\<lparr>Host := [CHR 0x7F]\<rparr>\<rparr>\<rparr>"


definition missing_presigned :: PresignedPostURLs where
  "missing_presigned = example_presigned\<lparr>Url := ''https://bucket.example/gone''\<rparr>"

definition hello_reader :: reader where
  "hello_reader = \<lparr>data = ''hello world'', fail = None\<rparr>"

definition short_reader :: reader where
  "short_reader = \<lparr>data = ''hi'', fail = None\<rparr>"

section \<open>How the methods relate to the wire contract\<close>

lemma post_eq:
  "post l path body w =
     (case http_NewRequest l ''POST'' (Host (config (ut w)) @ path) body of
        Inl e \<Rightarrow> (Inl e, w)
      | Inr req \<Rightarrow>
          (case net w (httpClient (ut w)) (sent w) (setHeaders (ut w) req) of
             Inl e \<Rightarrow> Inl e
           | Inr resp \<Rightarrow> if status_ok resp then Inr resp else Inl (status_error resp),
           w\<lparr>sent := sent w @ [setHeaders (ut w) req],
             wire := wire w @ exchange (httpClient (ut w)) (setHeaders (ut w) req) w\<rparr>))"
  by (auto simp: post_def http_Client_Do_def status_ok_def status_error_def io_ReadAll_def
           split: sum.splits)

lemmas method_defs =
  DeleteFiles_def ListFiles_def RenameFiles_def GetUsageInfo_def GetPresignedUrl_def
  GetAppInfo_def GetPresignedUploadUrl_def json_Marshal_def DeleteFilesRequest_json_def
  ListFilesRequest_json_def RenameFilesRequest_json_def RequestFileAccessRequest_json_def
  UploadFilesRequest_json_def

lemma RenameFileUpdate_json_fun:
  "RenameFileUpdate_json =
     (\<lambda>u. JObject [(''fileKey'', JString (RenameFileUpdate.FileKey u)),
                   (''newName'', JString (NewName u))])"
  by (rule ext) (simp add: RenameFileUpdate_json_def)

lemma UploadFileInfo_json_fun:
  "UploadFileInfo_json =
     (\<lambda>f. JObject ((''name'', JString (UploadFileInfo.Name f)) #
                   (''size'', JNumber (UploadFileInfo.Size f)) #
                   (''type'', JString (Type f)) #
                   (case UploadFileInfo.CustomId f of
                      None \<Rightarrow> []
                    | Some c \<Rightarrow> [(''customId'', JString c)])))"
  by (rule ext) (simp add: UploadFileInfo_json_def)

text \<open>
  Each of the seven methods is its row of the contract: it returns \<open>outcome\<close> of its HTTP
  call and leaves the world as it was but for the two request logs.
\<close>

lemma invoke_eq:
  "invoke l c w =
     (outcome l c (http_call l c w),
      w\<lparr>sent := sent w @ issued l c w, wire := wire w @ on_wire l c w\<rparr>)"
  by (cases c)
     (auto simp: method_defs post_eq outcome_def http_call_def api_request_def issued_def
        on_wire_def
        RenameFileUpdate_json_fun UploadFileInfo_json_fun
        split: sum.splits)

lemma invoke_ut: "ut (snd (invoke l c w)) = ut w"
  by (simp add: invoke_eq)

lemma invoke_new_requests:
  "drop (length (sent w)) (sent (snd (invoke l c w))) = issued l c w"
  by (simp add: invoke_eq)

lemma api_request_fields:
  "api_request l c w = Inr req \<Longrightarrow>
     Method req = ''POST'' \<and> URL req = Host (config (ut w)) @ endpoint c \<and> Body req = payload l c"
  by (auto simp: api_request_def http_NewRequest_def setHeaders_def Let_def
           split: option.splits)

lemma api_request_ok:
  "url_Parse l (Host (config (ut w)) @ endpoint c) = None \<Longrightarrow> \<exists>req. api_request l c w = Inr req"
  by (simp add: api_request_def http_NewRequest_def)

lemma api_request_headers:
  "api_request l c w = Inr req \<Longrightarrow>
     Header req ''Content-Type'' = Some [''application/json'']
   \<and> Header req ''x-uploadthing-api-key'' = Some [ApiKey (config (ut w))]
   \<and> Header req ''x-uploadthing-version'' = Some [Version (config (ut w))]
   \<and> Header req ''x-uploadthing-fe-package'' =
        (if fePackage (ut w) = [] then None else Some [fePackage (ut w)])
   \<and> Header req ''x-uploadthing-be-adapter'' =
        (if beAdapter (ut w) = [] then None else Some [beAdapter (ut w)])"
  by (auto simp: api_request_def http_NewRequest_def setHeaders_def Let_def Header_Set_def
           split: option.splits)

lemma worlds_before_ut: "\<forall>w' \<in> set (worlds_before l cs w). ut w' = ut w"
  by (induction cs arbitrary: w) (simp_all add: invoke_ut)

lemma run_calls_ut: "ut (run_calls l cs w) = ut w"
  by (induction cs arbitrary: w) (simp_all add: invoke_ut)

subsection \<open>Facts about the concrete environment\<close>

lemmas example_defs = example_lib_def example_world_def example_client_def example_net_def

lemma example_world_fields:
  "ut example_world = example_client" "sent example_world = []"
  by (simp_all add: example_world_def)

lemma example_url_ok:
  "url_Parse example_lib (Host (config (ut example_world)) @ endpoint c) = None"
  by (cases c) (simp_all add: example_defs)

lemma example_delete_call:
  "http_call example_lib (CallDeleteFiles ks) example_world =
     Inr \<lparr>StatusCode = 200, RespBody = \<lparr>data = deleted_body, fail = None\<rparr>\<rparr>"
  by (simp add: http_call_def api_request_def http_NewRequest_def example_defs setHeaders_def
        Let_def)

lemma example_invoke_sent:
  "ut w = example_client \<Longrightarrow>
     length (sent (snd (invoke example_lib c w))) = Suc (length (sent w))"
  by (cases c)
     (simp_all only: invoke_eq,
      simp_all add: issued_def api_request_def http_NewRequest_def example_lib_def
        example_client_def)

lemma NewUtApi_example: "fst (NewUtApi example_world) = (Some example_client, None)"
  by (simp add: NewUtApi_def getUploadthingConfig_def handleSetEnvironmentVariables_def
        setEnvironmentVariablesFromFile_def godotenv_Load_def os_Getenv_def
        example_world_def example_client_def map_add_def)

lemmas example_call_defs = http_call_def api_request_def http_NewRequest_def example_defs
  setHeaders_def Let_def

lemma example_calls_eval:
  "http_call example_lib (CallListFiles 100 0) example_world =
     Inr \<lparr>StatusCode = 500, RespBody = \<lparr>data = ''overloaded'', fail = None\<rparr>\<rparr>"
  "http_call example_lib CallGetUsageInfo example_world = Inl (Error ''dial tcp: connection refused'')"
  "http_call example_lib CallGetAppInfo example_world =
     Inr \<lparr>StatusCode = 200, RespBody = \<lparr>data = ''<html>'', fail = None\<rparr>\<rparr>"
  "http_call example_lib CallGetAppInfo bad_host_world =
     Inl (Error ''net/url: invalid control character in URL'')"
  by (simp_all add: example_call_defs bad_host_world_def)

lemma example_decodes:
  "Decode_GetAppInfoResponse example_lib \<lparr>data = ''<html>'', fail = None\<rparr> = Inl bad_json"
  "Decode_DeleteFilesResponse example_lib \<lparr>data = deleted_body, fail = None\<rparr> =
     Inr \<lparr>DeleteFilesResponse.Success = True, DeletedCount = 1\<rparr>"
  by (simp_all add: example_lib_def)

section \<open>Error handling of the API methods\<close>

text \<open>
  Claim C1. For each of the seven API methods (\<open>c\<close> ranges over DeleteFiles, ListFiles,
  RenameFiles, GetUsageInfo, GetPresignedUrl, GetAppInfo and GetPresignedUploadUrl with
  their arguments), the call returns the error \<open>e\<close> if and only if the underlying HTTP
  call fails with \<open>e\<close>, or the status of the response is outside 200-299 and \<open>e\<close> is the
  error that reports that status and the response body, or the status is inside the
  range and decoding the body fails with \<open>e\<close>. The error is nil if and only if the call
  succeeded with a status in the range and the body decoded, and then the decoded value
  is what is returned (for GetPresignedUrl, the URL taken from it). The HTTP call is
  \<^verbatim>\<open>http.NewRequest\<close> followed by \<^verbatim>\<open>httpClient.Do\<close>; \<^verbatim>\<open>json.Marshal\<close> cannot fail on the
  request structures.
\<close>

theorem api_error_iff:
  "((snd (fst (invoke l c w)) = Some e) =
      (http_call l c w = Inl e
       \<or> (\<exists>resp. http_call l c w = Inr resp
                 \<and> (StatusCode resp < 200 \<or> 299 < StatusCode resp)
                 \<and> e = status_error resp)
       \<or> (\<exists>resp. http_call l c w = Inr resp
                 \<and> 200 \<le> StatusCode resp \<and> StatusCode resp \<le> 299
                 \<and> decoded l c (RespBody resp) = Inl e)))
   \<and> ((snd (fst (invoke l c w)) = None) =
      (\<exists>resp v. http_call l c w = Inr resp
                 \<and> 200 \<le> StatusCode resp \<and> StatusCode resp \<le> 299
                 \<and> decoded l c (RespBody resp) = Inr v
                 \<and> fst (fst (invoke l c w)) = v))"
proof (cases "http_call l c w")
  case (Inl e')
  then show ?thesis by (simp add: invoke_eq outcome_def)
next
  case (Inr resp)
  show ?thesis
  proof (cases "status_ok resp")
    case False
    with Inr show ?thesis
      by (auto simp: invoke_eq outcome_def status_ok_def)
  next
    case True
    with Inr show ?thesis
      by (cases "decoded l c (RespBody resp)") (auto simp: invoke_eq outcome_def status_ok_def)
  qed
qed

text \<open>
  On the example world: ListFiles gets status 500 and returns the status error,
  GetUsageInfo cannot connect and returns the transport error, GetAppInfo gets a body that
  is not JSON and returns the decode error, a client whose host holds a control character
  returns the error of building the request, and DeleteFiles returns the decoded answer.
\<close>

theorem api_error_iff_witness:
  "snd (fst (invoke example_lib (CallListFiles 100 0) example_world)) =
     Some (Error ''UploadThing: error 500: overloaded'')
   \<and> snd (fst (invoke example_lib CallGetUsageInfo example_world)) =
       Some (Error ''dial tcp: connection refused'')
   \<and> snd (fst (invoke example_lib CallGetAppInfo example_world)) = Some bad_json
   \<and> snd (fst (invoke example_lib CallGetAppInfo bad_host_world)) =
       Some (Error ''net/url: invalid control character in URL'')
   \<and> fst (invoke example_lib (CallDeleteFiles (Slice [''k1''])) example_world) =
       (DeleteFilesValue (Some \<lparr>DeleteFilesResponse.Success = True, DeletedCount = 1\<rparr>), None)"
proof -
  have se: "status_error \<lparr>StatusCode = 500, RespBody = \<lparr>data = ''overloaded'', fail = None\<rparr>\<rparr>
              = Error ''UploadThing: error 500: overloaded''"
    by (simp add: status_error_def itoa_def itoa_nat.simps)
  have a: "snd (fst (invoke example_lib (CallListFiles 100 0) example_world)) =
     Some (Error ''UploadThing: error 500: overloaded'')"
    using api_error_iff [of example_lib "CallListFiles 100 0" example_world
        "Error ''UploadThing: error 500: overloaded''"]
    by (simp add: example_calls_eval se del: invoke.simps)
  have b: "snd (fst (invoke example_lib CallGetUsageInfo example_world)) =
       Some (Error ''dial tcp: connection refused'')"
    using api_error_iff [of example_lib CallGetUsageInfo example_world
        "Error ''dial tcp: connection refused''"]
    by (simp add: example_calls_eval del: invoke.simps)
  have c: "snd (fst (invoke example_lib CallGetAppInfo example_world)) = Some bad_json"
    using api_error_iff [of example_lib CallGetAppInfo example_world bad_json]
    by (simp add: example_calls_eval example_decodes del: invoke.simps)
  have d: "snd (fst (invoke example_lib CallGetAppInfo bad_host_world)) =
       Some (Error ''net/url: invalid control character in URL'')"
    using api_error_iff [of example_lib CallGetAppInfo bad_host_world
        "Error ''net/url: invalid control character in URL''"]
    by (simp add: example_calls_eval del: invoke.simps)
  have "snd (fst (invoke example_lib (CallDeleteFiles (Slice [''k1''])) example_world)) = None"
    using api_error_iff [of example_lib "CallDeleteFiles (Slice [''k1''])" example_world]
    by (simp add: example_delete_call example_decodes invoke_eq outcome_def status_ok_def
          del: invoke.simps)
  then have e: "fst (invoke example_lib (CallDeleteFiles (Slice [''k1''])) example_world) =
       (DeleteFilesValue (Some \<lparr>DeleteFilesResponse.Success = True, DeletedCount = 1\<rparr>), None)"
    by (simp add: invoke_eq outcome_def example_delete_call example_decodes status_ok_def
          del: invoke.simps)
  from a b c d e show ?thesis by blast
qed

section \<open>The request on the wire\<close>

text \<open>
  Claim C2. For each API method, when the request URL parses, the call hands the client
  exactly one request: an HTTP POST to the configured host followed by the method's fixed
  endpoint path, whose body is the method's request structure written as JSON (\<open>payload\<close>:
  the object with key \<open>fileKeys\<close> for DeleteFiles, with \<open>limit\<close> and \<open>offset\<close> for
  ListFiles, with \<open>updates\<close> for RenameFiles, and so on). When the provider answers with
  a status in 200-299, the method's result is the response body decoded into the
  method's result structure, or the decode error.
\<close>

theorem api_request_shape:
  assumes "url_Parse l (Host (config (ut w)) @ endpoint c) = None"
  shows "(\<exists>req. sent (snd (invoke l c w)) = sent w @ [req]
            \<and> Method req = ''POST''
            \<and> URL req = Host (config (ut w)) @ endpoint c
            \<and> Body req = payload l c)
       \<and> (\<forall>resp. http_call l c w = Inr resp \<and> 200 \<le> StatusCode resp \<and> StatusCode resp \<le> 299
            \<longrightarrow> fst (invoke l c w) =
                  (case decoded l c (RespBody resp) of
                     Inl e \<Rightarrow> (failure_value c, Some e)
                   | Inr v \<Rightarrow> (v, None)))"
proof -
  from api_request_ok [OF assms] obtain req where req: "api_request l c w = Inr req" ..
  have "sent (snd (invoke l c w)) = sent w @ [req]"
    by (simp add: invoke_eq issued_def req)
  with api_request_fields [OF req]
  have first: "\<exists>req. sent (snd (invoke l c w)) = sent w @ [req]
            \<and> Method req = ''POST''
            \<and> URL req = Host (config (ut w)) @ endpoint c
            \<and> Body req = payload l c"
    by blast
  have second: "\<forall>resp. http_call l c w = Inr resp \<and> 200 \<le> StatusCode resp
            \<and> StatusCode resp \<le> 299
            \<longrightarrow> fst (invoke l c w) =
                  (case decoded l c (RespBody resp) of
                     Inl e \<Rightarrow> (failure_value c, Some e)
                   | Inr v \<Rightarrow> (v, None))"
    by (simp add: invoke_eq outcome_def status_ok_def)
  from first second show ?thesis ..
qed

text \<open>
  DeleteFiles with the key \<open>k1\<close> on the example client: one POST to
  \<^verbatim>\<open>https://api.uploadthing.com/v6/deleteFiles\<close> whose body is the object with the key list
  under \<open>fileKeys\<close>, and the decoded answer comes back.
\<close>

theorem api_request_shape_witness:
  "url_Parse example_lib
     (Host (config (ut example_world)) @ endpoint (CallDeleteFiles (Slice [''k1'']))) = None
   \<and> (\<exists>req. sent (snd (invoke example_lib (CallDeleteFiles (Slice [''k1''])) example_world)) = [req]
          \<and> Method req = ''POST''
          \<and> URL req = ''https://api.uploadthing.com/v6/deleteFiles''
          \<and> Body req = example_encode (JObject [(''fileKeys'', JArray [JString ''k1''])]))
   \<and> fst (invoke example_lib (CallDeleteFiles (Slice [''k1''])) example_world) =
       (DeleteFilesValue (Some \<lparr>DeleteFilesResponse.Success = True, DeletedCount = 1\<rparr>), None)"
proof -
  have h: "url_Parse example_lib
             (Host (config (ut example_world)) @ endpoint (CallDeleteFiles (Slice [''k1'']))) = None"
    by (rule example_url_ok)
  have ev: "sent example_world = []"
      "Host (config (ut example_world)) = ''https://api.uploadthing.com''"
      "json_encode example_lib = example_encode"
      "Decode_DeleteFilesResponse example_lib \<lparr>data = deleted_body, fail = None\<rparr>
         = Inr \<lparr>DeleteFilesResponse.Success = True, DeletedCount = 1\<rparr>"
    by (simp_all add: example_defs)
  show ?thesis
    using h api_request_shape [OF h] example_delete_call [of "Slice [''k1'']"]
    by (simp add: ev slice_json_def)
qed

section \<open>Headers\<close>

text \<open>
  Claim C3. Every request an API method hands to the client carries \<open>Content-Type:
  application/json\<close>, \<open>x-uploadthing-api-key\<close> with the client's API key and
  \<open>x-uploadthing-version\<close> with the client's version; \<open>x-uploadthing-fe-package\<close> and
  \<open>x-uploadthing-be-adapter\<close> are present exactly when the client's \<open>fePackage\<close> and
  \<open>beAdapter\<close> are non-empty, and then carry those values.
\<close>

theorem api_headers:
  "\<forall>req \<in> set (drop (length (sent w)) (sent (snd (invoke l c w)))).
       Header req ''Content-Type'' = Some [''application/json'']
     \<and> Header req ''x-uploadthing-api-key'' = Some [ApiKey (config (ut w))]
     \<and> Header req ''x-uploadthing-version'' = Some [Version (config (ut w))]
     \<and> Header req ''x-uploadthing-fe-package'' =
          (if fePackage (ut w) = [] then None else Some [fePackage (ut w)])
     \<and> Header req ''x-uploadthing-be-adapter'' =
          (if beAdapter (ut w) = [] then None else Some [beAdapter (ut w)])"
proof
  fix req
  assume "req \<in> set (drop (length (sent w)) (sent (snd (invoke l c w))))"
  then have "req \<in> set (issued l c w)"
    by (simp only: invoke_new_requests)
  then have "api_request l c w = Inr req"
    by (auto simp: issued_def split: sum.splits)
  then show "Header req ''Content-Type'' = Some [''application/json'']
     \<and> Header req ''x-uploadthing-api-key'' = Some [ApiKey (config (ut w))]
     \<and> Header req ''x-uploadthing-version'' = Some [Version (config (ut w))]
     \<and> Header req ''x-uploadthing-fe-package'' =
          (if fePackage (ut w) = [] then None else Some [fePackage (ut w)])
     \<and> Header req ''x-uploadthing-be-adapter'' =
          (if beAdapter (ut w) = [] then None else Some [beAdapter (ut w)])"
    by (rule api_request_headers)
qed

text \<open>
  GetAppInfo on the example client, whose \<open>fePackage\<close> is empty and whose \<open>beAdapter\<close>
  is set: the one request has the three fixed headers and the adapter header, and no
  front-end package header.
\<close>

theorem api_headers_witness:
  "\<exists>req. drop (length (sent example_world))
             (sent (snd (invoke example_lib CallGetAppInfo example_world))) = [req]
        \<and> Header req ''Content-Type'' = Some [''application/json'']
        \<and> Header req ''x-uploadthing-api-key'' = Some [''sk_live_example'']
        \<and> Header req ''x-uploadthing-version'' = Some [''7.6.0'']
        \<and> Header req ''x-uploadthing-fe-package'' = None
        \<and> Header req ''x-uploadthing-be-adapter'' = Some [''github.com/IXackerr/utapi-go'']"
proof -
  from api_request_ok [OF example_url_ok]
  obtain req where req: "api_request example_lib CallGetAppInfo example_world = Inr req" ..
  then have new: "drop (length (sent example_world))
             (sent (snd (invoke example_lib CallGetAppInfo example_world))) = [req]"
    by (simp only: invoke_new_requests issued_def sum.case)
  then have "req \<in> set (drop (length (sent example_world))
             (sent (snd (invoke example_lib CallGetAppInfo example_world))))"
    by simp
  with api_headers [of example_world example_lib CallGetAppInfo]
  have "Header req ''Content-Type'' = Some [''application/json'']
     \<and> Header req ''x-uploadthing-api-key'' = Some [ApiKey (config (ut example_world))]
     \<and> Header req ''x-uploadthing-version'' = Some [Version (config (ut example_world))]
     \<and> Header req ''x-uploadthing-fe-package'' =
          (if fePackage (ut example_world) = [] then None
           else Some [fePackage (ut example_world)])
     \<and> Header req ''x-uploadthing-be-adapter'' =
          (if beAdapter (ut example_world) = [] then None
           else Some [beAdapter (ut example_world)])"
    by blast
  then have "Header req ''Content-Type'' = Some [''application/json'']
        \<and> Header req ''x-uploadthing-api-key'' = Some [''sk_live_example'']
        \<and> Header req ''x-uploadthing-version'' = Some [''7.6.0'']
        \<and> Header req ''x-uploadthing-fe-package'' = None
        \<and> Header req ''x-uploadthing-be-adapter'' = Some [''github.com/IXackerr/utapi-go'']"
    by (simp add: example_world_def example_client_def)
  with new show ?thesis by blast
qed

section \<open>One call to the client per invocation\<close>







section \<open>The client is never written\<close>

text \<open>
  Claim C5. No API method changes the client object: after any call the receiver is the
  one the call started with, so it is after any sequence of calls, and every call of a
  sequence starts in a state whose client is the client of the first state (the one
  \<^verbatim>\<open>NewUtApi\<close> built).
\<close>

theorem client_immutable:
  "ut (snd (invoke l c w)) = ut w
   \<and> ut (run_calls l cs w) = ut w
   \<and> (\<forall>w' \<in> set (worlds_before l cs w). ut w' = ut w)"
  by (simp add: invoke_ut run_calls_ut worlds_before_ut)

text \<open>
  Three calls on the client that \<^verbatim>\<open>NewUtApi\<close> returns in the example world: the third call
  starts after two requests were sent and still sees that client, and so does the state
  after the last call.
\<close>

theorem client_immutable_witness:
  "fst (NewUtApi example_world) = (Some example_client, None)
   \<and> length (worlds_before example_lib example_calls example_world) = 3
   \<and> ut (worlds_before example_lib example_calls example_world ! 2) = example_client
   \<and> length (sent (worlds_before example_lib example_calls example_world ! 2)) = 2
   \<and> ut (run_calls example_lib example_calls example_world) = example_client"
proof -
  have len: "length (worlds_before example_lib example_calls example_world) = 3"
    by (simp add: example_calls_def)
  then have "worlds_before example_lib example_calls example_world ! 2
               \<in> set (worlds_before example_lib example_calls example_world)"
    by simp
  with client_immutable [of example_lib "CallGetAppInfo" example_world example_calls]
  have "ut (worlds_before example_lib example_calls example_world ! 2) = ut example_world"
    and "ut (run_calls example_lib example_calls example_world) = ut example_world"
    by blast+
  moreover have "ut example_world = example_client"
    by (simp add: example_world_def)
  moreover have "length (sent (worlds_before example_lib example_calls example_world ! 2)) = 2"
    by (simp add: example_calls_def example_invoke_sent invoke_ut example_world_fields
          del: invoke.simps)
  ultimately show ?thesis using len NewUtApi_example by simp
qed

section \<open>The uploaded file is closed\<close>

lemma createMultipartForm_eq:
  "createMultipartForm l content n name fs' w =
     (case (case content of
              Some src \<Rightarrow> if n > 0 then io_CopyN src n else Inr []
            | None \<Rightarrow> Inr []) of
        Inl e \<Rightarrow> Inl e
      | Inr written \<Rightarrow>
          Inr (multipart_encode l (boundary w)
                 (map (\<lambda>(k, v). FormField k v) fs' @ [FormFile ''file'' name written]),
               ''multipart/form-data; boundary='' @ boundary w))"
  by (simp add: createMultipartForm_def multipart_CreateFormFile_def)

lemma UploadFile_open_files:
  "open_files (snd (UploadFileToPresignedUrl l filePath p w)) =
     (case fs w filePath of Inl e \<Rightarrow> open_files w | Inr f \<Rightarrow> open_files w - {next_fd w})"
  by (auto simp: UploadFileToPresignedUrl_def os_Open_def File_Close_def
        http_Client_Do_def split: sum.splits prod.splits)

lemmas upload_defs = UploadFileToPresignedUrl_def os_Open_def File_Stat_def File_Close_def
  createMultipartForm_eq http_NewRequest_def http_Client_Do_def io_ReadAll_def io_CopyN_def

lemma example_open:
  "os_Open ''/tmp/test.txt'' example_world =
     (Inr \<lparr>fd = 3, node = \<lparr>stat_size = Inr 5, contents = \<lparr>data = ''hello'', fail = None\<rparr>\<rparr>\<rparr>,
      example_world\<lparr>open_files := {0, 1, 2, 3}, next_fd := 4\<rparr>)"
  by (auto simp: os_Open_def example_world_def)

text \<open>
  Claim C6. Whatever path a call of \<^verbatim>\<open>UploadFileToPresignedUrl\<close> takes, when it returns
  the descriptor it opened for the file path is closed: the set of open descriptors has
  not grown, and the descriptor that \<^verbatim>\<open>os.Open\<close> handed out, open during the call, is not
  in it.
\<close>

theorem upload_closes_file:
  "open_files (snd (UploadFileToPresignedUrl l filePath presigned w)) \<subseteq> open_files w
   \<and> (\<forall>file w1. os_Open filePath w = (Inr file, w1) \<longrightarrow>
          fd file \<in> open_files w1
        \<and> fd file \<notin> open_files (snd (UploadFileToPresignedUrl l filePath presigned w)))"
  by (auto simp: UploadFile_open_files os_Open_def split: sum.splits)

text \<open>
  Uploading \<^verbatim>\<open>/tmp/test.txt\<close> in the example world opens descriptor 3. It is closed after a
  successful upload and after one the bucket answers with 404.
\<close>

theorem upload_closes_file_witness:
  "fst (UploadFileToPresignedUrl example_lib ''/tmp/test.txt'' example_presigned example_world)
     = None
   \<and> 3 \<notin> open_files (snd (UploadFileToPresignedUrl example_lib ''/tmp/test.txt''
                              example_presigned example_world))
   \<and> fst (UploadFileToPresignedUrl example_lib ''/tmp/test.txt'' missing_presigned example_world)
       = Some (Error ''File upload error: 404: not found'')
   \<and> 3 \<notin> open_files (snd (UploadFileToPresignedUrl example_lib ''/tmp/test.txt''
                              missing_presigned example_world))"
proof -
  have ok: "fst (UploadFileToPresignedUrl example_lib ''/tmp/test.txt'' example_presigned
                   example_world) = None"
    by (simp add: upload_defs example_defs example_presigned_def)
  have bad: "fst (UploadFileToPresignedUrl example_lib ''/tmp/test.txt'' missing_presigned
                    example_world) = Some (Error ''File upload error: 404: not found'')"
    by (simp add: upload_defs example_defs example_presigned_def missing_presigned_def
          itoa_def itoa_nat.simps)
  from upload_closes_file [of example_lib "''/tmp/test.txt''" example_presigned example_world]
    example_open
  have "3 \<notin> open_files (snd (UploadFileToPresignedUrl example_lib ''/tmp/test.txt''
                              example_presigned example_world))"
    by simp
  moreover
  from upload_closes_file [of example_lib "''/tmp/test.txt''" missing_presigned example_world]
    example_open
  have "3 \<notin> open_files (snd (UploadFileToPresignedUrl example_lib ''/tmp/test.txt''
                              missing_presigned example_world))"
    by simp
  ultimately show ?thesis using ok bad by simp
qed

section \<open>No hidden state\<close>

text \<open>
  Claim C7. The result of an API method (value and error) depends only on the client's
  configuration, the arguments and the provider's answer to the one request: two runs
  with the same client and the same call, in states that may differ in everything else
  (what was sent before, the rest of the world), return the same pair whenever the
  provider answers that request the same way in both.
\<close>

theorem api_deterministic:
  assumes "ut w1 = ut w2"
    and "\<forall>req. api_request l c w1 = Inr req \<longrightarrow>
           net w1 (httpClient (ut w1)) (sent w1) req = net w2 (httpClient (ut w2)) (sent w2) req"
  shows "fst (invoke l c w1) = fst (invoke l c w2)"
proof -
  have req: "api_request l c w1 = api_request l c w2"
    unfolding api_request_def assms(1) ..
  have "http_call l c w1 = http_call l c w2"
    using assms req by (auto simp: http_call_def split: sum.splits)
  then show ?thesis by (simp add: invoke_eq)
qed

text \<open>
  GetPresignedUrl in the fresh example world and in the world after three other calls:
  the request logs differ, the results are the same.
\<close>

theorem api_deterministic_witness:
  "ut example_world = ut later_world
   \<and> sent example_world \<noteq> sent later_world
   \<and> fst (invoke example_lib (CallGetPresignedUrl ''k1'' 3600) example_world) =
       fst (invoke example_lib (CallGetPresignedUrl ''k1'' 3600) later_world)
   \<and> fst (invoke example_lib (CallGetPresignedUrl ''k1'' 3600) later_world) =
       (PresignedUrlValue ''https://ufs.example/f/k1'', None)"
proof -
  have u: "ut example_world = ut later_world"
    by (simp add: later_world_def run_calls_ut)
  have later: "later_world =
      example_world\<lparr>sent := sent later_world, wire := wire later_world\<rparr>"
    by (simp add: later_world_def example_calls_def invoke_eq)
  have n: "net later_world = net example_world"
    by (subst later) simp
  have a: "\<forall>req. api_request example_lib (CallGetPresignedUrl ''k1'' 3600) example_world
                  = Inr req \<longrightarrow>
           net example_world (httpClient (ut example_world)) (sent example_world) req =
           net later_world (httpClient (ut later_world)) (sent later_world) req"
    by (simp add: n u [symmetric]) (simp add: example_world_def example_net_def)
  have "length (sent later_world) = 3"
    by (simp add: later_world_def example_calls_def example_invoke_sent invoke_ut
          example_world_fields del: invoke.simps)
  moreover have "length (sent example_world) = 0"
    by (simp add: example_world_def)
  ultimately have s: "sent example_world \<noteq> sent later_world"
    by auto
  have r: "fst (invoke example_lib (CallGetPresignedUrl ''k1'' 3600) example_world) =
       (PresignedUrlValue ''https://ufs.example/f/k1'', None)"
    by (simp add: invoke_eq outcome_def http_call_def api_request_def http_NewRequest_def
          example_defs setHeaders_def Let_def status_ok_def)
  from api_deterministic [OF u a] u s r show ?thesis by simp
qed

section \<open>Result and error exclude each other\<close>

lemma DeleteFiles_pair:
  "(fst (fst (DeleteFiles l fileKeys w)) = None) = (snd (fst (DeleteFiles l fileKeys w)) \<noteq> None)"
  by (auto simp: DeleteFiles_def json_Marshal_def split: sum.splits prod.splits)

lemma ListFiles_pair:
  "(fst (fst (ListFiles l limit offset w)) = None) =
   (snd (fst (ListFiles l limit offset w)) \<noteq> None)"
  by (auto simp: ListFiles_def json_Marshal_def split: sum.splits prod.splits)

lemma RenameFiles_pair:
  "(fst (fst (RenameFiles l updates w)) = None) = (snd (fst (RenameFiles l updates w)) \<noteq> None)"
  by (auto simp: RenameFiles_def json_Marshal_def split: sum.splits prod.splits)

lemma GetUsageInfo_pair:
  "(fst (fst (GetUsageInfo l w)) = None) = (snd (fst (GetUsageInfo l w)) \<noteq> None)"
  by (auto simp: GetUsageInfo_def split: sum.splits prod.splits)

lemma GetAppInfo_pair:
  "(fst (fst (GetAppInfo l w)) = None) = (snd (fst (GetAppInfo l w)) \<noteq> None)"
  by (auto simp: GetAppInfo_def split: sum.splits prod.splits)

lemma GetPresignedUploadUrl_pair:
  "(fst (fst (GetPresignedUploadUrl l files acl w)) = None) =
   (snd (fst (GetPresignedUploadUrl l files acl w)) \<noteq> None)"
  by (auto simp: GetPresignedUploadUrl_def json_Marshal_def split: sum.splits prod.splits)

lemma GetPresignedUrl_error:
  "snd (fst (GetPresignedUrl l fileKey expiresIn w)) \<noteq> None \<Longrightarrow>
     fst (fst (GetPresignedUrl l fileKey expiresIn w)) = []"
  by (auto simp: GetPresignedUrl_def json_Marshal_def split: sum.splits prod.splits)

lemma GetPresignedUrl_invoke:
  "fst (GetPresignedUrl l fileKey expiresIn w) = (s, e) \<longleftrightarrow>
     fst (invoke l (CallGetPresignedUrl fileKey expiresIn) w) = (PresignedUrlValue s, e)"
  by (auto split: prod.splits)

lemma GetPresignedUrl_success:
  assumes "http_call l (CallGetPresignedUrl fileKey expiresIn) w = Inr resp"
    and "200 \<le> StatusCode resp" and "StatusCode resp \<le> 299"
    and "Decode_RequestFileAccessResponse l (RespBody resp) = Inr r"
  shows "fst (GetPresignedUrl l fileKey expiresIn w) = (UfsUrl r, None)"
  unfolding GetPresignedUrl_invoke
  using assms by (simp only: invoke_eq) (simp add: outcome_def status_ok_def)

text \<open>
  Claim C8. Each of the six methods that return a pointer returns exactly one of a
  non-nil result and a non-nil error: the result is nil if and only if the error is
  not. \<^verbatim>\<open>GetPresignedUrl\<close> returns the empty string whenever its error is not nil, and when
  the call succeeds and the body decodes to \<open>r\<close> it returns the \<open>ufsUrl\<close> field of \<open>r\<close>
  and nothing else of it.
\<close>

theorem result_xor_error:
  "((fst (fst (DeleteFiles l fileKeys w)) = None) =
      (snd (fst (DeleteFiles l fileKeys w)) \<noteq> None))
   \<and> ((fst (fst (ListFiles l limit offset w)) = None) =
        (snd (fst (ListFiles l limit offset w)) \<noteq> None))
   \<and> ((fst (fst (RenameFiles l updates w)) = None) =
        (snd (fst (RenameFiles l updates w)) \<noteq> None))
   \<and> ((fst (fst (GetUsageInfo l w)) = None) = (snd (fst (GetUsageInfo l w)) \<noteq> None))
   \<and> ((fst (fst (GetAppInfo l w)) = None) = (snd (fst (GetAppInfo l w)) \<noteq> None))
   \<and> ((fst (fst (GetPresignedUploadUrl l files acl w)) = None) =
        (snd (fst (GetPresignedUploadUrl l files acl w)) \<noteq> None))
   \<and> (snd (fst (GetPresignedUrl l fileKey expiresIn w)) \<noteq> None \<longrightarrow>
        fst (fst (GetPresignedUrl l fileKey expiresIn w)) = [])
   \<and> (\<forall>resp r. http_call l (CallGetPresignedUrl fileKey expiresIn) w = Inr resp
           \<and> 200 \<le> StatusCode resp \<and> StatusCode resp \<le> 299
           \<and> Decode_RequestFileAccessResponse l (RespBody resp) = Inr r
         \<longrightarrow> fst (GetPresignedUrl l fileKey expiresIn w) = (UfsUrl r, None))"
proof (intro conjI allI impI)
  fix resp r
  assume "http_call l (CallGetPresignedUrl fileKey expiresIn) w = Inr resp
           \<and> 200 \<le> StatusCode resp \<and> StatusCode resp \<le> 299
           \<and> Decode_RequestFileAccessResponse l (RespBody resp) = Inr r"
  then show "fst (GetPresignedUrl l fileKey expiresIn w) = (UfsUrl r, None)"
    by (simp add: GetPresignedUrl_success)
next
  assume "snd (fst (GetPresignedUrl l fileKey expiresIn w)) \<noteq> None"
  then show "fst (fst (GetPresignedUrl l fileKey expiresIn w)) = []"
    by (rule GetPresignedUrl_error)
qed (rule DeleteFiles_pair ListFiles_pair RenameFiles_pair GetUsageInfo_pair
       GetAppInfo_pair GetPresignedUploadUrl_pair)+

text \<open>
  \<^verbatim>\<open>GetPresignedUrl\<close> against a network that times out returns the empty string with the
  error; against the example provider, whose answer decodes to a structure with both
  URLs, it returns the \<open>ufsUrl\<close> one.
\<close>

theorem result_xor_error_witness:
  "snd (fst (GetPresignedUrl example_lib ''k1'' 3600
               (example_world\<lparr>net := \<lambda>c h r. Inl (Error ''timeout'')\<rparr>)))
     = Some (Error ''timeout'')
   \<and> fst (fst (GetPresignedUrl example_lib ''k1'' 3600
                 (example_world\<lparr>net := \<lambda>c h r. Inl (Error ''timeout'')\<rparr>))) = []
   \<and> http_call example_lib (CallGetPresignedUrl ''k1'' 3600) example_world =
        Inr \<lparr>StatusCode = 200, RespBody = \<lparr>data = access_body, fail = None\<rparr>\<rparr>
   \<and> Decode_RequestFileAccessResponse example_lib \<lparr>data = access_body, fail = None\<rparr> =
        Inr \<lparr>UfsUrl = ''https://ufs.example/f/k1'', Url = ''https://old.example/f/k1''\<rparr>
   \<and> fst (GetPresignedUrl example_lib ''k1'' 3600 example_world) =
        (''https://ufs.example/f/k1'', None)"
proof -
  let ?down = "example_world\<lparr>net := \<lambda>c h r. Inl (Error ''timeout'')\<rparr>"
  have e: "snd (fst (GetPresignedUrl example_lib ''k1'' 3600 ?down)) = Some (Error ''timeout'')"
    by (simp add: GetPresignedUrl_def json_Marshal_def post_eq http_NewRequest_def
          example_lib_def example_world_def example_client_def Let_def)
  have c: "http_call example_lib (CallGetPresignedUrl ''k1'' 3600) example_world =
        Inr \<lparr>StatusCode = 200, RespBody = \<lparr>data = access_body, fail = None\<rparr>\<rparr>"
    by (simp add: http_call_def api_request_def http_NewRequest_def example_defs setHeaders_def
          Let_def)
  have d: "Decode_RequestFileAccessResponse example_lib \<lparr>data = access_body, fail = None\<rparr> =
        Inr \<lparr>UfsUrl = ''https://ufs.example/f/k1'', Url = ''https://old.example/f/k1''\<rparr>"
    by (simp add: example_lib_def)
  from result_xor_error [of example_lib _ ?down _ _ _ _ _ "''k1''" 3600] e
  have "fst (fst (GetPresignedUrl example_lib ''k1'' 3600 ?down)) = []"
    by simp
  moreover
  from result_xor_error [of example_lib _ example_world _ _ _ _ _ "''k1''" 3600] c d
  have "fst (GetPresignedUrl example_lib ''k1'' 3600 example_world) =
        (''https://ufs.example/f/k1'', None)"
    by simp
  ultimately show ?thesis using e c d by simp
qed

section \<open>The constructor\<close>

lemmas NewUtApi_defs = NewUtApi_def getUploadthingConfig_def handleSetEnvironmentVariables_def
  setEnvironmentVariablesFromFile_def godotenv_Load_def fmt_Printf_def

text \<open>
  Claim C9. \<^verbatim>\<open>NewUtApi\<close> returns a nil client and the load error whenever the file \<^verbatim>\<open>.env\<close>
  cannot be loaded, whatever the process environment holds; it returns a nil client and
  the error \<open>UPLOADTHING_SECRET is not set\<close> when the file loads and the variable is empty
  afterwards. Otherwise it returns a client with a nil error. A client it returns has the
  host \<^verbatim>\<open>https://api.uploadthing.com\<close>, the version \<^verbatim>\<open>7.6.0\<close> and, as its API key, the value
  of \<open>UPLOADTHING_SECRET\<close> after loading.
\<close>

theorem NewUtApi_result:
  "(dotenv w ''.env'' = Inl e \<longrightarrow> fst (NewUtApi w) = (None, Some e))
   \<and> (dotenv w ''.env'' = Inr m
        \<and> os_Getenv ''UPLOADTHING_SECRET'' (w\<lparr>environ := m ++ environ w\<rparr>) = []
      \<longrightarrow> fst (NewUtApi w) = (None, Some (Error ''UPLOADTHING_SECRET is not set'')))
   \<and> (dotenv w ''.env'' = Inr m
        \<and> os_Getenv ''UPLOADTHING_SECRET'' (w\<lparr>environ := m ++ environ w\<rparr>) \<noteq> []
      \<longrightarrow> fst (NewUtApi w) =
            (Some \<lparr>config = \<lparr>Host = ''https://api.uploadthing.com'',
                              ApiKey = os_Getenv ''UPLOADTHING_SECRET''
                                         (w\<lparr>environ := m ++ environ w\<rparr>),
                              Version = ''7.6.0''\<rparr>,
                   httpClient = http_Client_zero,
                   fePackage = [],
                   beAdapter = ''github.com/IXackerr/utapi-go''\<rparr>, None))
   \<and> (fst (NewUtApi w) = (Some u, None)
      \<longrightarrow> Host (config u) = ''https://api.uploadthing.com''
          \<and> Version (config u) = ''7.6.0''
          \<and> ApiKey (config u) = os_Getenv ''UPLOADTHING_SECRET'' (snd (NewUtApi w)))"
  by (cases "dotenv w ''.env''")
     (auto simp: NewUtApi_defs split: option.splits prod.splits)

text \<open>
  Without a dotenv file the constructor fails although the process environment has the
  secret; with an empty dotenv file and no secret it reports the missing variable; in the
  example world it returns the example client, whose key is the secret of the file.
\<close>

theorem NewUtApi_result_witness:
  "os_Getenv ''UPLOADTHING_SECRET'' no_dotenv_world = ''sk_live_from_process''
   \<and> fst (NewUtApi no_dotenv_world) =
       (None, Some (Error ''open .env: no such file or directory''))
   \<and> fst (NewUtApi empty_dotenv_world) = (None, Some (Error ''UPLOADTHING_SECRET is not set''))
   \<and> fst (NewUtApi example_world) = (Some example_client, None)
   \<and> ApiKey (config example_client) = ''sk_live_example''"
proof -
  have a: "dotenv no_dotenv_world ''.env'' = Inl (Error ''open .env: no such file or directory'')"
    by (simp add: no_dotenv_world_def)
  have b: "dotenv empty_dotenv_world ''.env'' = Inr Map.empty
           \<and> os_Getenv ''UPLOADTHING_SECRET''
                (empty_dotenv_world\<lparr>environ := Map.empty ++ environ empty_dotenv_world\<rparr>) = []"
    by (simp add: empty_dotenv_world_def example_world_def os_Getenv_def)
  have c: "dotenv example_world ''.env'' = Inr [''UPLOADTHING_SECRET'' \<mapsto> ''sk_live_example'']
           \<and> os_Getenv ''UPLOADTHING_SECRET''
                (example_world\<lparr>environ := [''UPLOADTHING_SECRET'' \<mapsto> ''sk_live_example'']
                                              ++ environ example_world\<rparr>) = ''sk_live_example''"
    by (simp add: example_world_def os_Getenv_def)
  have "fst (NewUtApi no_dotenv_world) =
          (None, Some (Error ''open .env: no such file or directory''))"
    using NewUtApi_result [of no_dotenv_world] a by simp
  moreover have "fst (NewUtApi empty_dotenv_world) =
          (None, Some (Error ''UPLOADTHING_SECRET is not set''))"
    using NewUtApi_result [of empty_dotenv_world _ Map.empty] b by simp
  moreover have "fst (NewUtApi example_world) = (Some example_client, None)"
    using NewUtApi_result [of example_world _ "[''UPLOADTHING_SECRET'' \<mapsto> ''sk_live_example'']"] c
    by (simp add: example_client_def)
  moreover have "os_Getenv ''UPLOADTHING_SECRET'' no_dotenv_world = ''sk_live_from_process''"
    by (simp add: no_dotenv_world_def os_Getenv_def)
  ultimately show ?thesis by (simp add: example_client_def)
qed

section \<open>The multipart body of an upload\<close>

lemma UploadContent_sent:
  assumes "createMultipartForm l content n (FileName p) (Fields p) w = Inr (body, ct)"
    and "url_Parse l (PresignedPostURLs.Url p) = None"
  shows "\<exists>req. sent (snd (UploadContentToPresignedUrl l content n p w)) = sent w @ [req]
           \<and> Method req = ''POST'' \<and> URL req = PresignedPostURLs.Url p \<and> Body req = body
           \<and> Header req ''Content-Type'' = Some [ct]"
  using assms
  by (auto simp: UploadContentToPresignedUrl_def http_NewRequest_def http_Client_Do_def
        Header_Set_def io_ReadAll_def split: sum.splits)

lemma UploadContent_form_error:
  assumes "createMultipartForm l content n (FileName p) (Fields p) w = Inl e"
  shows "UploadContentToPresignedUrl l content n p w = (Some e, w)"
  using assms by (simp add: UploadContentToPresignedUrl_def)

lemma UploadFile_sent:
  assumes "fs w filePath = Inr f" and "stat_size f = Inr n"
    and "createMultipartForm l (Some (contents f)) n (FileName p) (Fields p) w = Inr (body, ct)"
    and "url_Parse l (PresignedPostURLs.Url p) = None"
  shows "\<exists>req. sent (snd (UploadFileToPresignedUrl l filePath p w)) = sent w @ [req]
           \<and> Method req = ''POST'' \<and> URL req = PresignedPostURLs.Url p \<and> Body req = body
           \<and> Header req ''Content-Type'' = Some [ct]"
  using assms
  by (auto simp: UploadFileToPresignedUrl_def os_Open_def File_Stat_def File_Close_def
        createMultipartForm_eq
        http_NewRequest_def http_Client_Do_def
        Header_Set_def io_ReadAll_def split: sum.splits option.splits if_splits)

lemma UploadFile_form_error:
  assumes "fs w filePath = Inr f" and "stat_size f = Inr n"
    and "createMultipartForm l (Some (contents f)) n (FileName p) (Fields p) w = Inl e"
  shows "fst (UploadFileToPresignedUrl l filePath p w) = Some e
         \<and> sent (snd (UploadFileToPresignedUrl l filePath p w)) = sent w"
  using assms
  by (auto simp: UploadFileToPresignedUrl_def os_Open_def File_Stat_def File_Close_def
        createMultipartForm_eq split: sum.splits option.splits if_splits)

lemma form_full:
  assumes "0 < n" and "n \<le> int (length (data src))"
  shows "createMultipartForm l (Some src) n (FileName p) (Fields p) w =
           Inr (multipart_encode l (boundary w) (form_parts p (take (nat n) (data src))),
                ''multipart/form-data; boundary='' @ boundary w)"
  using assms by (simp add: createMultipartForm_eq io_CopyN_def form_parts_def)

lemma form_short:
  assumes "int (length (data src)) < n"
  shows "createMultipartForm l (Some src) n (FileName p) (Fields p) w =
           Inl (case fail src of None \<Rightarrow> io_EOF | Some e \<Rightarrow> e)"
  using assms by (simp add: createMultipartForm_eq io_CopyN_def)

lemma form_empty:
  assumes "content = None \<or> n \<le> 0"
  shows "createMultipartForm l content n (FileName p) (Fields p) w =
           Inr (multipart_encode l (boundary w) (form_parts p []),
                ''multipart/form-data; boundary='' @ boundary w)"
  using assms by (auto simp: createMultipartForm_eq form_parts_def split: option.splits)

text \<open>
  Claim C10. The body both upload functions send is the multipart encoding of all form
  fields the provider supplied followed by one file part named \<open>file\<close>. For
  \<^verbatim>\<open>UploadContentToPresignedUrl\<close> with a reader that yields at least \<open>size\<close> bytes and a
  positive \<open>size\<close>, the file part holds exactly the first \<open>size\<close> bytes of the reader; if
  the reader yields fewer than \<open>size\<close> bytes, the function returns an error and sends no
  request; if the content is nil or \<open>size\<close> is not positive, the file part is empty. The
  same holds for \<^verbatim>\<open>UploadFileToPresignedUrl\<close>, with the opened file as the reader and the
  size \<^verbatim>\<open>Stat\<close> reports. (A request is sent only if the presigned URL parses.)
\<close>

theorem multipart_upload:
  "(content = Some src \<and> 0 < n \<and> n \<le> int (length (data src))
      \<and> url_Parse l (PresignedPostURLs.Url p) = None \<longrightarrow>
      (\<exists>req. sent (snd (UploadContentToPresignedUrl l content n p w)) = sent w @ [req]
            \<and> Body req = multipart_encode l (boundary w) (form_parts p (take (nat n) (data src))))
      \<and> int (length (take (nat n) (data src))) = n)
   \<and> (content = Some src \<and> int (length (data src)) < n \<longrightarrow>
      (\<exists>e. fst (UploadContentToPresignedUrl l content n p w) = Some e)
      \<and> sent (snd (UploadContentToPresignedUrl l content n p w)) = sent w)
   \<and> ((content = None \<or> n \<le> 0) \<and> url_Parse l (PresignedPostURLs.Url p) = None \<longrightarrow>
      (\<exists>req. sent (snd (UploadContentToPresignedUrl l content n p w)) = sent w @ [req]
            \<and> Body req = multipart_encode l (boundary w) (form_parts p [])))
   \<and> (fs w filePath = Inr f \<and> stat_size f = Inr m \<and> 0 < m
      \<and> m \<le> int (length (data (contents f)))
      \<and> url_Parse l (PresignedPostURLs.Url p) = None \<longrightarrow>
      (\<exists>req. sent (snd (UploadFileToPresignedUrl l filePath p w)) = sent w @ [req]
            \<and> Body req = multipart_encode l (boundary w)
                            (form_parts p (take (nat m) (data (contents f))))))
   \<and> (fs w filePath = Inr f \<and> stat_size f = Inr m \<and> int (length (data (contents f))) < m \<longrightarrow>
      (\<exists>e. fst (UploadFileToPresignedUrl l filePath p w) = Some e)
      \<and> sent (snd (UploadFileToPresignedUrl l filePath p w)) = sent w)
   \<and> (fs w filePath = Inr f \<and> stat_size f = Inr m \<and> m \<le> 0
      \<and> url_Parse l (PresignedPostURLs.Url p) = None \<longrightarrow>
      (\<exists>req. sent (snd (UploadFileToPresignedUrl l filePath p w)) = sent w @ [req]
            \<and> Body req = multipart_encode l (boundary w) (form_parts p [])))"
proof (intro conjI impI; (elim conjE)?)
  assume "content = Some src" "0 < n" "n \<le> int (length (data src))"
    and u: "url_Parse l (PresignedPostURLs.Url p) = None"
  then have "createMultipartForm l content n (FileName p) (Fields p) w =
           Inr (multipart_encode l (boundary w) (form_parts p (take (nat n) (data src))),
                ''multipart/form-data; boundary='' @ boundary w)"
    by (simp add: form_full)
  from UploadContent_sent [OF this u]
  show "\<exists>req. sent (snd (UploadContentToPresignedUrl l content n p w)) = sent w @ [req]
            \<and> Body req = multipart_encode l (boundary w) (form_parts p (take (nat n) (data src)))"
    by blast
next
  assume "0 < n" "n \<le> int (length (data src))"
  then show "int (length (take (nat n) (data src))) = n" by simp
next
  assume "content = Some src" "int (length (data src)) < n"
  then have "createMultipartForm l content n (FileName p) (Fields p) w =
           Inl (case fail src of None \<Rightarrow> io_EOF | Some e \<Rightarrow> e)"
    by (simp add: form_short)
  from UploadContent_form_error [OF this]
  show "\<exists>e. fst (UploadContentToPresignedUrl l content n p w) = Some e"
    and "sent (snd (UploadContentToPresignedUrl l content n p w)) = sent w"
    by simp_all
next
  assume "content = None \<or> n \<le> 0" and u: "url_Parse l (PresignedPostURLs.Url p) = None"
  from UploadContent_sent [OF form_empty [OF this(1)] u]
  show "\<exists>req. sent (snd (UploadContentToPresignedUrl l content n p w)) = sent w @ [req]
            \<and> Body req = multipart_encode l (boundary w) (form_parts p [])"
    by blast
next
  assume f: "fs w filePath = Inr f" "stat_size f = Inr m"
    and "0 < m" "m \<le> int (length (data (contents f)))"
    and u: "url_Parse l (PresignedPostURLs.Url p) = None"
  from UploadFile_sent [OF f form_full u, OF this(3,4)]
  show "\<exists>req. sent (snd (UploadFileToPresignedUrl l filePath p w)) = sent w @ [req]
            \<and> Body req = multipart_encode l (boundary w)
                            (form_parts p (take (nat m) (data (contents f))))"
    by blast
next
  assume f: "fs w filePath = Inr f" "stat_size f = Inr m"
    and "int (length (data (contents f))) < m"
  from UploadFile_form_error [OF f form_short, OF this(3)]
  show "\<exists>e. fst (UploadFileToPresignedUrl l filePath p w) = Some e"
    and "sent (snd (UploadFileToPresignedUrl l filePath p w)) = sent w"
    by simp_all
next
  assume f: "fs w filePath = Inr f" "stat_size f = Inr m"
    and "m \<le> 0" and u: "url_Parse l (PresignedPostURLs.Url p) = None"
  then have "Some (contents f) = None \<or> m \<le> 0" by simp
  from UploadFile_sent [OF f form_empty u, OF this]
  show "\<exists>req. sent (snd (UploadFileToPresignedUrl l filePath p w)) = sent w @ [req]
            \<and> Body req = multipart_encode l (boundary w) (form_parts p [])"
    by blast
qed


text \<open>
  On the example world: five bytes of an eleven-byte reader give the file part \<open>hello\<close>
  after the two provider fields; a two-byte reader with size five gives an error and no
  request; a nil content gives an empty file part; uploading the five-byte file
  \<^verbatim>\<open>/tmp/test.txt\<close> sends its content.
\<close>

theorem multipart_upload_witness:
  "(\<exists>req. sent (snd (UploadContentToPresignedUrl example_lib (Some hello_reader) 5
                        example_presigned example_world)) = [req]
         \<and> Body req = example_multipart ''b0''
             [FormField ''key'' ''k1'', FormField ''policy'' ''p'',
              FormFile ''file'' ''test.txt'' ''hello''])
   \<and> (\<exists>e. fst (UploadContentToPresignedUrl example_lib (Some short_reader) 5
                   example_presigned example_world) = Some e)
   \<and> sent (snd (UploadContentToPresignedUrl example_lib (Some short_reader) 5
                   example_presigned example_world)) = []
   \<and> (\<exists>req. sent (snd (UploadContentToPresignedUrl example_lib None 5
                        example_presigned example_world)) = [req]
         \<and> Body req = example_multipart ''b0''
             [FormField ''key'' ''k1'', FormField ''policy'' ''p'',
              FormFile ''file'' ''test.txt'' []])
   \<and> (\<exists>req. sent (snd (UploadFileToPresignedUrl example_lib ''/tmp/test.txt''
                        example_presigned example_world)) = [req]
         \<and> Body req = example_multipart ''b0''
             [FormField ''key'' ''k1'', FormField ''policy'' ''p'',
              FormFile ''file'' ''test.txt'' ''hello''])"
proof -
  have env: "url_Parse example_lib (PresignedPostURLs.Url example_presigned) = None"
      "sent example_world = []" "boundary example_world = ''b0''"
      "multipart_encode example_lib = example_multipart"
      "fs example_world ''/tmp/test.txt'' =
         Inr \<lparr>stat_size = Inr 5, contents = \<lparr>data = ''hello'', fail = None\<rparr>\<rparr>"
    by (simp_all add: example_lib_def example_world_def example_presigned_def)
  have parts: "\<And>bs. form_parts example_presigned bs =
      [FormField ''key'' ''k1'', FormField ''policy'' ''p'', FormFile ''file'' ''test.txt'' bs]"
    by (simp add: form_parts_def example_presigned_def)
  note mu = multipart_upload [where l = example_lib and p = example_presigned
      and w = example_world]
  have a: "\<exists>req. sent (snd (UploadContentToPresignedUrl example_lib (Some hello_reader) 5
                        example_presigned example_world)) = [req]
         \<and> Body req = example_multipart ''b0''
             [FormField ''key'' ''k1'', FormField ''policy'' ''p'',
              FormFile ''file'' ''test.txt'' ''hello'']"
    using mu [where content = "Some hello_reader" and src = hello_reader and n = 5] env
    by (simp add: parts hello_reader_def)
  have b: "(\<exists>e. fst (UploadContentToPresignedUrl example_lib (Some short_reader) 5
                   example_presigned example_world) = Some e)
      \<and> sent (snd (UploadContentToPresignedUrl example_lib (Some short_reader) 5
                   example_presigned example_world)) = []"
    using mu [where content = "Some short_reader" and src = short_reader and n = 5] env
    by (simp add: short_reader_def)
  have c: "\<exists>req. sent (snd (UploadContentToPresignedUrl example_lib None 5
                        example_presigned example_world)) = [req]
         \<and> Body req = example_multipart ''b0''
             [FormField ''key'' ''k1'', FormField ''policy'' ''p'',
              FormFile ''file'' ''test.txt'' []]"
    using mu [where content = None and n = 5] env
    by (simp add: parts)
  have d: "\<exists>req. sent (snd (UploadFileToPresignedUrl example_lib ''/tmp/test.txt''
                        example_presigned example_world)) = [req]
         \<and> Body req = example_multipart ''b0''
             [FormField ''key'' ''k1'', FormField ''policy'' ''p'',
              FormFile ''file'' ''test.txt'' ''hello'']"
    using mu [where filePath = "''/tmp/test.txt''" and m = 5
        and f = "\<lparr>stat_size = Inr 5, contents = \<lparr>data = ''hello'', fail = None\<rparr>\<rparr>"] env
    by (simp add: parts)
  from a b c d show ?thesis by blast
qed

end
